theory Spec2Isabelle
  imports Main "HOL-Library.Word"
begin

unbundle bit_operations_syntax

section \<open>Host values\<close>

text \<open>
  A JavaScript string is a sequence of UTF-16 code units (\<open>charCodeAt\<close>, \<open>length\<close>);
  linear memory is a sequence of bytes (\<open>Uint8Array\<close>).
\<close>

type_synonym code_unit = "16 word"
type_synonym jsstring = "code_unit list"
type_synonym byte = "8 word"

definition lit :: "string \<Rightarrow> jsstring" where
  "lit s = map (\<lambda>c. of_nat (of_char c)) s"

text \<open>
  The numbers that cross the bridge: \<open>NaN\<close>, the finite integral values and the two
  infinities. (Fractions and the negative zero behave under \<open>===\<close> as the integers do
  or, for the negative zero, as \<open>0\<close>; they are not told apart here.)
\<close>

datatype number = NaN | Fin int | PosInfinity | NegInfinity

text \<open>The \<open>Error\<close> objects that the source creates itself, by their message.\<close>

datatype error_message =
    NotInitialised
  | NoInstance
  | NoEntryPoint
  | Timeout
  | EmptySolution
  | NotAFunction
  | NotAConstructor
  | RangeError
  | TypeError

text \<open>
  Host values (\<open>any\<close> in the source). The five objects of \<open>createBrowserEnvironment\<close>
  and \<open>globalThis\<close> are constructors of their own; \<open>SolveCallback k\<close> is the closure
  that \<open>defineSolveFunction\<close> installs for the promise number \<open>k\<close>; \<open>HostObject\<close> and
  \<open>HostFunction\<close> are every other object and function of the host, told apart by
  identity; \<open>ErrorObject msg n\<close> is the \<open>n\<close>-th \<open>Error\<close> object that the source
  itself has created.
\<close>

datatype jsval =
    Undefined
  | Null
  | Bool bool
  | Num number
  | BigInt int
  | Str jsstring
  | GlobalThis
  | Navigator
  | Document
  | Crypto
  | WebGLRenderingContext
  | SolveCallback nat
  | HostObject nat
  | HostFunction nat
  | ErrorObject error_message nat

text \<open>\<open>a === b\<close>: identity, but \<open>NaN\<close> is not equal to itself.\<close>

definition strict_eq :: "jsval \<Rightarrow> jsval \<Rightarrow> bool" where
  "strict_eq a b = (a = b \<and> a \<noteq> Num NaN)"

text \<open>\<open>typeof v === 'function'\<close>.\<close>

definition typeof_function :: "jsval \<Rightarrow> bool" where
  "typeof_function v =
     (case v of WebGLRenderingContext \<Rightarrow> True | SolveCallback _ \<Rightarrow> True
      | HostFunction _ \<Rightarrow> True | _ \<Rightarrow> False)"

text \<open>
  \<open>Number(b)\<close> of a BigInt \<open>b\<close>: the nearest double, ties to the even significand of 53
  bits, and an infinity from \<open>2^1024 - 2^970\<close> on.
\<close>

function bit_length :: "int \<Rightarrow> nat" where
  "bit_length n = (if n \<le> 0 then 0 else Suc (bit_length (n div 2)))"
  by auto

termination
  by (relation "measure nat") auto

declare bit_length.simps [simp del]

definition Number_of_BigInt :: "int \<Rightarrow> number" where
  "Number_of_BigInt b =
     (if bit_length \<bar>b\<bar> \<le> 53 then Fin b
      else
        let s = bit_length \<bar>b\<bar> - 53;
            q = \<bar>b\<bar> div 2 ^ s; r = \<bar>b\<bar> mod 2 ^ s;
            q' = (if 2 ^ (s - 1) < r \<or> (r = 2 ^ (s - 1) \<and> odd q) then q + 1 else q);
            m = q' * 2 ^ s
        in if 1024 < bit_length m then (if b < 0 then NegInfinity else PosInfinity)
           else Fin (if b < 0 then - m else m))"

text \<open>\<open>if (typeof value === 'bigint') value = Number(value)\<close>.\<close>

definition narrow_bigint :: "jsval \<Rightarrow> jsval" where
  "narrow_bigint v = (case v of BigInt n \<Rightarrow> Num (Number_of_BigInt n) | _ \<Rightarrow> v)"

section \<open>Memory marshaller\<close>

text \<open>
  An indexed read of a \<open>Uint8Array\<close> outside its length is \<open>undefined\<close>, which the
  bitwise operators read as \<open>0\<close>; an indexed write outside its length is ignored.
\<close>

definition byte_at :: "byte list \<Rightarrow> int \<Rightarrow> byte" where
  "byte_at m i = (if 0 \<le> i \<and> i < int (length m) then m ! nat i else 0)"

definition mem_write :: "byte list \<Rightarrow> int \<Rightarrow> byte \<Rightarrow> byte list" where
  "mem_write m i b = (if 0 \<le> i \<and> i < int (length m) then m[nat i := b] else m)"

text \<open>\<open>(numValue >> k) & 0xFF\<close> on the 32-bit integer of \<open>numValue\<close>.\<close>

definition int32_byte :: "nat \<Rightarrow> int \<Rightarrow> byte" where
  "int32_byte k numValue = ucast (signed_drop_bit k (word_of_int numValue :: 32 word) AND 255)"

definition readInt32FromMemory :: "byte list \<Rightarrow> int \<Rightarrow> int" where
  "readInt32FromMemory memory ptr =
     (if ptr < 0 \<or> ptr + 3 \<ge> int (length memory) then 0
      else uint ((ucast (byte_at memory ptr)
                  OR push_bit 8 (ucast (byte_at memory (ptr + 1)))
                  OR push_bit 16 (ucast (byte_at memory (ptr + 2)))
                  OR push_bit 24 (ucast (byte_at memory (ptr + 3)))) :: 32 word))"

definition writeInt32ToMemory :: "byte list \<Rightarrow> int \<Rightarrow> int \<Rightarrow> byte list" where
  "writeInt32ToMemory memory ptr numValue =
     (if ptr < 0 \<or> ptr + 3 \<ge> int (length memory) then memory
      else mem_write (mem_write (mem_write (mem_write memory
             ptr (int32_byte 0 numValue))
             (ptr + 1) (int32_byte 8 numValue))
             (ptr + 2) (int32_byte 16 numValue))
             (ptr + 3) (int32_byte 24 numValue))"

text \<open>
  \<open>writeInt64ToMemory\<close>: the low and the high half go through \<open>writeInt32ToMemory\<close>,
  each with its own bounds check. \<open>Number(value >> 32n)\<close> is the nearest double; of an
  infinity the bitwise operators of \<open>writeInt32ToMemory\<close> make \<open>0\<close>. (Its \<open>catch\<close>
  branch needs a non-BigInt \<open>value\<close>, which no caller passes.)
\<close>

definition writeInt64ToMemory :: "byte list \<Rightarrow> int \<Rightarrow> int \<Rightarrow> byte list" where
  "writeInt64ToMemory memory ptr v =
     (let lowValue = v AND 4294967295;
          highValue = (case Number_of_BigInt (drop_bit 32 v) of Fin h \<Rightarrow> h | _ \<Rightarrow> 0)
      in writeInt32ToMemory (writeInt32ToMemory memory ptr lowValue) (ptr + 4) highValue)"

text \<open>\<open>writeValueToMemory\<close>: every caller passes an id, a number.\<close>

definition writeValueToMemory :: "byte list \<Rightarrow> int \<Rightarrow> int \<Rightarrow> byte list" where
  "writeValueToMemory memory ptr v = writeInt32ToMemory memory ptr v"

text \<open>
  \<open>Uint8Array.prototype.slice(start, end)\<close>: a negative index counts from the end, and
  both indices are clamped to the length.
\<close>

definition slice :: "byte list \<Rightarrow> int \<Rightarrow> int \<Rightarrow> byte list" where
  "slice m start final =
     (let len = int (length m);
          k = (if start < 0 then max (len + start) 0 else min start len);
          e = (if final < 0 then max (len + final) 0 else min final len)
      in take (nat (max (e - k) 0)) (drop (nat k) m))"

text \<open>
  \<open>readStringFromMemory\<close>, with the \<open>TextDecoder\<close> as a parameter: it has no bounds
  check of its own.
\<close>

definition readStringFromMemory ::
  "(byte list \<Rightarrow> jsstring) \<Rightarrow> byte list \<Rightarrow> int \<Rightarrow> int \<Rightarrow> jsstring" where
  "readStringFromMemory decode memory ptr len = decode (slice memory ptr (ptr + len))"

text \<open>A UTF-8 decoder that is exact on ASCII bytes: one code unit for every byte.\<close>

definition ascii_decode :: "byte list \<Rightarrow> jsstring" where
  "ascii_decode bs = map ucast bs"

definition ascii_encode :: "jsstring \<Rightarrow> byte list" where
  "ascii_encode s = map ucast s"

definition ascii_lower :: "jsstring \<Rightarrow> jsstring" where
  "ascii_lower s = map (\<lambda>c. if 65 \<le> c \<and> c \<le> 90 then c + 32 else c) s"

section \<open>Fallback synthesis\<close>

text \<open>\<open>Number.prototype.toString(16)\<close> and \<open>toString()\<close> on a non-negative integer.\<close>

definition hex_digit :: "int \<Rightarrow> code_unit" where
  "hex_digit d = (if d < 10 then word_of_int (48 + d) else word_of_int (87 + d))"

function to_hex :: "int \<Rightarrow> jsstring" where
  "to_hex n = (if n < 16 then [hex_digit n] else to_hex (n div 16) @ [hex_digit (n mod 16)])"
  by pat_completeness auto
termination
  by (relation "measure nat") auto

declare to_hex.simps [simp del]

fun to_decimal :: "nat \<Rightarrow> jsstring" where
  "to_decimal n =
     (if n < 10 then [of_nat (48 + n)] else to_decimal (n div 10) @ [of_nat (48 + n mod 10)])"

declare to_decimal.simps [simp del]

text \<open>\<open>String.prototype.padStart(length, '0')\<close>.\<close>

definition padStart :: "nat \<Rightarrow> jsstring \<Rightarrow> jsstring" where
  "padStart n s = (if n \<le> length s then s else replicate (n - length s) 48 @ s)"

text \<open>
  One round of the inner loop of \<open>generateHashSegment\<close>: \<open>Math.imul\<close> is the
  multiplication of 32-bit words.
\<close>

definition hash_step :: "32 word \<times> 32 word \<Rightarrow> code_unit \<Rightarrow> 32 word \<times> 32 word" where
  "hash_step h ch =
     ((fst h XOR ucast ch) * 2654435761, (snd h XOR ucast ch) * 1597334677)"

text \<open>The body of the outer loop: the text \<open>blockHash\<close> of one \<open>seedPart\<close>.\<close>

definition blockHash :: "jsstring \<Rightarrow> jsstring" where
  "blockHash seedPart =
     (let h0 = (3735928559 XOR of_nat (length seedPart),
                1103547991 XOR of_nat (length seedPart));
          h = foldl hash_step h0 seedPart;
          h1 = ((fst h XOR drop_bit 16 (fst h)) * 2246822507)
                 XOR ((snd h XOR drop_bit 13 (snd h)) * 3266489909);
          h2 = ((snd h XOR drop_bit 16 (snd h)) * 2246822507)
                 XOR ((h1 XOR drop_bit 13 h1) * 3266489909)
      in to_hex (4294967296 * uint (2097151 AND h2) + uint h1))"

definition generateHashSegment :: "jsstring \<Rightarrow> nat \<Rightarrow> jsstring" where
  "generateHashSegment input len =
     padStart len (take len
       (concat (map (\<lambda>i. blockHash (input @ to_decimal i)) [0 ..< (len + 7) div 8])))"

definition generateSolution :: "jsstring \<Rightarrow> jsstring" where
  "generateSolution token =
     (let seed = lit ''monad_challenge_seed_'' @ token;
          hash1 = generateHashSegment (seed @ lit ''part1'') 16;
          hash2 = generateHashSegment (seed @ lit ''part2'') 16;
          hash3 = generateHashSegment (seed @ lit ''part3'') 16
      in lit ''1.0;'' @ hash1 @ lit '';'' @ hash2 @ lit '';'' @ hash3)"

text \<open>The solution grammar \<open>/^1\.0;[a-zA-Z0-9]{16};[a-zA-Z0-9]{16};[a-zA-Z0-9]{16}$/\<close>.\<close>

definition alnum :: "code_unit \<Rightarrow> bool" where
  "alnum c = ((48 \<le> c \<and> c \<le> 57) \<or> (65 \<le> c \<and> c \<le> 90) \<or> (97 \<le> c \<and> c \<le> 122))"

text \<open>The digits of a lower-case hexadecimal numeral.\<close>

definition lower_hex :: "code_unit \<Rightarrow> bool" where
  "lower_hex c = ((48 \<le> c \<and> c \<le> 57) \<or> (97 \<le> c \<and> c \<le> 102))"

definition solution_format :: "jsstring \<Rightarrow> bool" where
  "solution_format s =
     (length s = 54 \<and> take 4 s = lit ''1.0;''
      \<and> list_all alnum (take 16 (drop 4 s)) \<and> take 1 (drop 20 s) = lit '';''
      \<and> list_all alnum (take 16 (drop 21 s)) \<and> take 1 (drop 37 s) = lit '';''
      \<and> list_all alnum (drop 38 s))"

section \<open>The solver and the globals it publishes\<close>

text \<open>
  The promise of \<open>defineSolveFunction\<close>: settled at most once.
\<close>

datatype promise = Pending | Resolved jsstring | Rejected jsval

text \<open>
  A module instance: the bytes of the memory it exports, and the names of its exports in
  their order, each with whether it is a function.
\<close>

record wasm_instance =
  buffer :: "byte list"
  exports :: "(jsstring \<times> bool) list"

text \<open>
  The fields of \<open>VercelWasmChallengeSolver\<close> (\<open>wasmExports\<close> is set together with
  \<open>wasmInstance\<close>, to its exports; \<open>browserEnv\<close> is the four constant objects), the two
  properties the source publishes on \<open>globalThis\<close>, the promises created so far, the
  number of \<open>Error\<close> objects created so far, and the state of the rest of the host.
\<close>

record 'h world =
  wasmInstance :: "wasm_instance option"
  objectRefs :: "(int \<times> jsval) list"
  nextRefId :: int
  vercelChallengeToken :: jsval
  Solve :: jsval
  promises :: "promise list"
  allocated :: nat
  host :: 'h

text \<open>The state after the constructor, before \<open>initialize\<close>.\<close>

definition new_solver :: "'h \<Rightarrow> 'h world" where
  "new_solver h =
     \<lparr>wasmInstance = None, objectRefs = [], nextRefId = 6,
      vercelChallengeToken = Undefined, Solve = Undefined, promises = [],
      allocated = 0, host = h\<rparr>"

section \<open>Object reference table\<close>

text \<open>\<open>Map.prototype.set\<close> and \<open>get\<close> on a map kept in insertion order.\<close>

fun Map_set :: "(int \<times> jsval) list \<Rightarrow> int \<Rightarrow> jsval \<Rightarrow> (int \<times> jsval) list" where
  "Map_set [] k v = [(k, v)]"
| "Map_set ((k', v') # es) k v = (if k' = k then (k, v) # es else (k', v') # Map_set es k v)"

definition Map_get :: "(int \<times> jsval) list \<Rightarrow> int \<Rightarrow> jsval" where
  "Map_get es k = (case map_of es k of Some v \<Rightarrow> v | None \<Rightarrow> Undefined)"

definition storeObject :: "'h world \<Rightarrow> jsval \<Rightarrow> int \<times> 'h world" where
  "storeObject w obj =
     (if strict_eq obj Navigator then (2, w)
      else if strict_eq obj Document then (3, w)
      else if strict_eq obj Crypto then (4, w)
      else if strict_eq obj WebGLRenderingContext then (5, w)
      else if strict_eq obj Undefined \<or> strict_eq obj Null then (0, w)
      else if strict_eq obj GlobalThis then (1, w)
      else (case List.find (\<lambda>(k, v). strict_eq v obj) (objectRefs w) of
              Some (k, v) \<Rightarrow> (k, w)
            | None \<Rightarrow>
                (nextRefId w,
                 w\<lparr>objectRefs := Map_set (objectRefs w) (nextRefId w) obj,
                   nextRefId := nextRefId w + 1\<rparr>)))"

definition getObject :: "'h world \<Rightarrow> int \<Rightarrow> jsval" where
  "getObject w refId =
     (if refId = 0 then Undefined
      else if refId = 1 then GlobalThis
      else if refId = 2 then Navigator
      else if refId = 3 then Document
      else if refId = 4 then Crypto
      else if refId = 5 then WebGLRenderingContext
      else Map_get (objectRefs w) refId)"

text \<open>
  A run of \<open>storeObject\<close> over a list of values: the id of each, and whether it was
  newly assigned.
\<close>

fun store_all :: "'h world \<Rightarrow> jsval list \<Rightarrow> (int \<times> bool) list \<times> 'h world" where
  "store_all w [] = ([], w)"
| "store_all w (v # vs) =
     (case storeObject w v of (i, w') \<Rightarrow>
        (case store_all w' vs of (r, w'') \<Rightarrow> ((i, nextRefId w' \<noteq> nextRefId w) # r, w'')))"

text \<open>
  The invariant of the table that the constructor establishes: the ids it holds are the
  integers from 6 up to \<open>nextRefId\<close>, each once.
\<close>

definition table_ok :: "'h world \<Rightarrow> bool" where
  "table_ok w = (6 \<le> nextRefId w \<and> distinct (map fst (objectRefs w))
                 \<and> set (map fst (objectRefs w)) = {6 ..< nextRefId w})"

definition reserved :: "jsval \<Rightarrow> bool" where
  "reserved v = (v = Undefined \<or> v = Null \<or> v = GlobalThis \<or> v = Navigator \<or> v = Document
                 \<or> v = Crypto \<or> v = WebGLRenderingContext)"

section \<open>The JavaScript runtime\<close>

text \<open>
  A computation of the host: it runs in a state, ends with a value (\<open>Inr\<close>) or with a
  thrown value (\<open>Inl\<close>), and leaves a state in both cases.
\<close>

type_synonym ('h, 'a) comp = "'h world \<Rightarrow> (jsval + 'a) \<times> 'h world"

definition ret :: "'a \<Rightarrow> ('h, 'a) comp" where
  "ret x = (\<lambda>w. (Inr x, w))"

definition throw :: "jsval \<Rightarrow> ('h, 'a) comp" where
  "throw e = (\<lambda>w. (Inl e, w))"

definition bind :: "('h, 'a) comp \<Rightarrow> ('a \<Rightarrow> ('h, 'b) comp) \<Rightarrow> ('h, 'b) comp" where
  "bind m f = (\<lambda>w. case m w of (Inl e, w') \<Rightarrow> (Inl e, w') | (Inr x, w') \<Rightarrow> f x w')"

definition seq :: "('h, unit) comp \<Rightarrow> ('h, 'b) comp \<Rightarrow> ('h, 'b) comp" where
  "seq m n = bind m (\<lambda>u. n)"

text \<open>\<open>try { m } catch (error) { h error }\<close>: the handler runs in the state of the throw.\<close>

definition try_catch :: "('h, 'a) comp \<Rightarrow> (jsval \<Rightarrow> ('h, 'a) comp) \<Rightarrow> ('h, 'a) comp" where
  "try_catch m h = (\<lambda>w. case m w of (Inl e, w') \<Rightarrow> h e w' | (Inr x, w') \<Rightarrow> (Inr x, w'))"

primrec mapM :: "('x \<Rightarrow> ('h, 'a) comp) \<Rightarrow> 'x list \<Rightarrow> ('h, 'a list) comp" where
  "mapM f [] = ret []"
| "mapM f (x # xs) = bind (f x) (\<lambda>y. bind (mapM f xs) (\<lambda>ys. ret (y # ys)))"

text \<open>
  What the source takes from the JavaScript runtime and from host objects that are not its
  own: the text codecs, \<open>toLowerCase\<close>, reflection (\<open>Reflect.get\<close>, \<open>Reflect.set\<close>, \<open>Reflect.apply\<close>,
  \<open>Reflect.construct\<close>, \<open>key in obj\<close>), the coercions \<open>String(v)\<close>, a template literal
  and \<open>BigInt(v)\<close>, whether the \<open>message\<close> of a thrown host value contains the
  text of the timeout, and the number of elements from which an array cannot grow. Each
  operation is a parameter: it may throw, and it may change any part of the state (a host
  function can call back into the bridge), which is more than the host can do. Console output is left out, but for the coercion of a value in a template
  literal, which can throw.
\<close>

record 'h runtime =
  decode :: "byte list \<Rightarrow> jsstring"
  encode :: "jsstring \<Rightarrow> byte list"
  toLowerCase :: "jsstring \<Rightarrow> jsstring"
  h_get :: "jsval \<Rightarrow> jsval \<Rightarrow> ('h, jsval) comp"
  h_set :: "jsval \<Rightarrow> jsval \<Rightarrow> jsval \<Rightarrow> ('h, unit) comp"
  h_apply :: "jsval \<Rightarrow> jsval \<Rightarrow> jsval list \<Rightarrow> ('h, jsval) comp"
  h_construct :: "jsval \<Rightarrow> jsval list \<Rightarrow> ('h, jsval) comp"
  h_in :: "jsstring \<Rightarrow> jsval \<Rightarrow> ('h, bool) comp"
  h_String :: "jsval \<Rightarrow> ('h, jsstring) comp"
  h_template :: "jsval \<Rightarrow> ('h, jsstring) comp"
  h_BigInt :: "jsval \<Rightarrow> ('h, int) comp"
  h_timeout_message :: "'h world \<Rightarrow> jsval \<Rightarrow> bool"
  array_limit :: int

text \<open>\<open>new Error(msg)\<close>: a fresh object.\<close>

definition new_error :: "error_message \<Rightarrow> ('h, jsval) comp" where
  "new_error msg = (\<lambda>w. (Inr (ErrorObject msg (allocated w)), w\<lparr>allocated := allocated w + 1\<rparr>))"

text \<open>
  The coercions, decided here for the values whose text is fixed. (A template literal and
  the \<open>+\<close> of a string literal coerce alike but for exotic objects; both are
  \<open>js_template\<close>.)
\<close>

definition js_template :: "'h runtime \<Rightarrow> jsval \<Rightarrow> ('h, jsstring) comp" where
  "js_template H v =
     (case v of Str s \<Rightarrow> ret s | Undefined \<Rightarrow> ret (lit ''undefined'')
      | Null \<Rightarrow> ret (lit ''null'') | _ \<Rightarrow> h_template H v)"

definition js_String :: "'h runtime \<Rightarrow> jsval \<Rightarrow> ('h, jsstring) comp" where
  "js_String H v =
     (case v of Str s \<Rightarrow> ret s | Undefined \<Rightarrow> ret (lit ''undefined'')
      | Null \<Rightarrow> ret (lit ''null'') | _ \<Rightarrow> h_String H v)"

definition js_BigInt :: "'h runtime \<Rightarrow> jsval \<Rightarrow> ('h, int) comp" where
  "js_BigInt H v =
     (case v of Num (Fin n) \<Rightarrow> ret n | BigInt n \<Rightarrow> ret n | _ \<Rightarrow> h_BigInt H v)"

text \<open>
  \<open>Reflect.get\<close> and \<open>Reflect.set\<close>: the two properties of \<open>globalThis\<close> that the source
  publishes are fields of the state.
\<close>

definition reflect_get :: "'h runtime \<Rightarrow> jsval \<Rightarrow> jsval \<Rightarrow> ('h, jsval) comp" where
  "reflect_get H target key =
     (if target = GlobalThis \<and> key = Str (lit ''vercelChallengeToken'')
        then (\<lambda>w. (Inr (vercelChallengeToken w), w))
      else if target = GlobalThis \<and> key = Str (lit ''Solve'')
        then (\<lambda>w. (Inr (Solve w), w))
      else h_get H target key)"

definition reflect_set :: "'h runtime \<Rightarrow> jsval \<Rightarrow> jsval \<Rightarrow> jsval \<Rightarrow> ('h, unit) comp" where
  "reflect_set H target key v =
     (if target = GlobalThis \<and> key = Str (lit ''vercelChallengeToken'')
        then (\<lambda>w. (Inr (), w\<lparr>vercelChallengeToken := v\<rparr>))
      else if target = GlobalThis \<and> key = Str (lit ''Solve'')
        then (\<lambda>w. (Inr (), w\<lparr>Solve := v\<rparr>))
      else h_set H target key v)"

section \<open>The solution promise and its callback\<close>

definition resolve :: "nat \<Rightarrow> jsstring \<Rightarrow> ('h, unit) comp" where
  "resolve k s = (\<lambda>w. (Inr (),
     if k < length (promises w) \<and> promises w ! k = Pending
     then w\<lparr>promises := (promises w)[k := Resolved s]\<rparr> else w))"

definition reject :: "nat \<Rightarrow> jsval \<Rightarrow> ('h, unit) comp" where
  "reject k e = (\<lambda>w. (Inr (),
     if k < length (promises w) \<and> promises w ! k = Pending
     then w\<lparr>promises := (promises w)[k := Rejected e]\<rparr> else w))"

text \<open>
  The function that \<open>defineSolveFunction\<close> stores in \<open>globalThis.Solve\<close>, for the promise
  \<open>k\<close>. Its first line, a \<open>console.log\<close> of a template literal, is outside its \<open>try\<close>.
\<close>

definition Solve_callback :: "'h runtime \<Rightarrow> nat \<Rightarrow> jsval \<Rightarrow> ('h, jsval) comp" where
  "Solve_callback H k tokenStr =
     bind (js_template H tokenStr) (\<lambda>logged.
       try_catch
         (if tokenStr = Null \<or> tokenStr = Undefined
          then bind (new_error EmptySolution) (\<lambda>e. seq (reject k e) (ret (Str [])))
          else bind (js_String H tokenStr) (\<lambda>solution.
                 seq (resolve k solution) (ret (Str solution))))
         (\<lambda>error. seq (reject k error) (throw error)))"

text \<open>The timer of \<open>defineSolveFunction\<close>, when it fires after 30 seconds.\<close>

definition fire_timeout :: "nat \<Rightarrow> ('h, unit) comp" where
  "fire_timeout k = bind (new_error Timeout) (\<lambda>e. reject k e)"

definition defineSolveFunction :: "'h world \<Rightarrow> nat \<times> 'h world" where
  "defineSolveFunction w =
     (length (promises w),
      w\<lparr>promises := promises w @ [Pending], Solve := SolveCallback (length (promises w))\<rparr>)"

text \<open>A call of a host value that is a function, with its \<open>this\<close> and its arguments.\<close>

definition call_function ::
  "'h runtime \<Rightarrow> jsval \<Rightarrow> jsval \<Rightarrow> jsval list \<Rightarrow> ('h, jsval) comp" where
  "call_function H fn thisArg args =
     (case fn of
        SolveCallback k \<Rightarrow> Solve_callback H k (case args of [] \<Rightarrow> Undefined | a # rest \<Rightarrow> a)
      | _ \<Rightarrow> h_apply H fn thisArg args)"

section \<open>ABI dispatcher\<close>

text \<open>
  The view \<open>new Uint8Array(this.wasmInstance.exports.memory.buffer)\<close> aliases the memory of
  the instance: the marshaller, lifted to the state.
\<close>

definition mem :: "'h world \<Rightarrow> byte list" where
  "mem w = (case wasmInstance w of Some inst \<Rightarrow> buffer inst | None \<Rightarrow> [])"

definition set_mem :: "byte list \<Rightarrow> 'h world \<Rightarrow> 'h world" where
  "set_mem m w = w\<lparr>wasmInstance := map_option (\<lambda>inst. inst\<lparr>buffer := m\<rparr>) (wasmInstance w)\<rparr>"

definition memory_length :: "('h, int) comp" where
  "memory_length = (\<lambda>w. (Inr (int (length (mem w))), w))"

definition readInt32 :: "int \<Rightarrow> ('h, int) comp" where
  "readInt32 ptr = (\<lambda>w. (Inr (readInt32FromMemory (mem w) ptr), w))"

definition writeInt32 :: "int \<Rightarrow> int \<Rightarrow> ('h, unit) comp" where
  "writeInt32 ptr v = (\<lambda>w. (Inr (), set_mem (writeInt32ToMemory (mem w) ptr v) w))"

definition writeInt64 :: "int \<Rightarrow> int \<Rightarrow> ('h, unit) comp" where
  "writeInt64 ptr v = (\<lambda>w. (Inr (), set_mem (writeInt64ToMemory (mem w) ptr v) w))"

definition writeValue :: "int \<Rightarrow> int \<Rightarrow> ('h, unit) comp" where
  "writeValue ptr v = (\<lambda>w. (Inr (), set_mem (writeValueToMemory (mem w) ptr v) w))"

definition readString :: "'h runtime \<Rightarrow> int \<Rightarrow> int \<Rightarrow> ('h, jsstring) comp" where
  "readString H ptr len = (\<lambda>w. (Inr (readStringFromMemory (decode H) (mem w) ptr len), w))"

text \<open>\<open>memory[i] = b\<close>, and the four such writes of a 32-bit value or of zero.\<close>

definition poke :: "int \<Rightarrow> byte \<Rightarrow> ('h, unit) comp" where
  "poke i b = (\<lambda>w. (Inr (), set_mem (mem_write (mem w) i b) w))"

definition poke_int32 :: "int \<Rightarrow> int \<Rightarrow> ('h, unit) comp" where
  "poke_int32 ptr v =
     seq (poke ptr (int32_byte 0 v)) (seq (poke (ptr + 1) (int32_byte 8 v))
       (seq (poke (ptr + 2) (int32_byte 16 v)) (poke (ptr + 3) (int32_byte 24 v))))"

definition poke_zero32 :: "int \<Rightarrow> ('h, unit) comp" where
  "poke_zero32 ptr =
     seq (poke ptr 0) (seq (poke (ptr + 1) 0) (seq (poke (ptr + 2) 0) (poke (ptr + 3) 0)))"

text \<open>\<open>memory.set(src, offset)\<close>: a \<open>RangeError\<close> when the source does not fit.\<close>

definition typed_set :: "byte list \<Rightarrow> int \<Rightarrow> ('h, unit) comp" where
  "typed_set src offset = (\<lambda>w.
     if offset < 0 \<or> offset + int (length src) > int (length (mem w))
     then bind (new_error RangeError) throw w
     else (Inr (), set_mem (take (nat offset) (mem w) @ src
                            @ drop (nat offset + length src) (mem w)) w))"

definition store :: "jsval \<Rightarrow> ('h, int) comp" where
  "store v = (\<lambda>w. case storeObject w v of (i, w') \<Rightarrow> (Inr i, w'))"

definition load :: "int \<Rightarrow> ('h, jsval) comp" where
  "load i = (\<lambda>w. (Inr (getObject w i), w))"

text \<open>\<open>if (!this.wasmInstance) return;\<close>\<close>

definition when_instance :: "('h, unit) comp \<Rightarrow> ('h, unit) comp" where
  "when_instance m = (\<lambda>w. if wasmInstance w = None then (Inr (), w) else m w)"

text \<open>
  The stack pointer as the guest delivers it: a number, or a BigInt. \<open>sp % BigInt(...)\<close>
  takes the sign of \<open>sp\<close>.
\<close>

datatype spval = SpNumber int | SpBigInt int

definition MAX_SAFE_INTEGER :: int where
  "MAX_SAFE_INTEGER = 9007199254740991"

definition js_rem :: "int \<Rightarrow> int \<Rightarrow> int" where
  "js_rem a b = (if a < 0 then - ((- a) mod b) else a mod b)"

definition huge :: "spval \<Rightarrow> bool" where
  "huge sp = (case sp of SpBigInt b \<Rightarrow> b > MAX_SAFE_INTEGER | SpNumber n \<Rightarrow> False)"

definition spNum :: "spval \<Rightarrow> int" where
  "spNum sp = (case sp of SpBigInt b \<Rightarrow> js_rem b MAX_SAFE_INTEGER | SpNumber n \<Rightarrow> n)"

text \<open>
  \<open>sp + k\<close> with a number \<open>k\<close>, as the handlers declared with \<open>sp: number\<close> write it: the
  sum of a BigInt and a number is a \<open>TypeError\<close>. \<open>writeInt32_at\<close> is
  \<open>writeInt32ToMemory(memory, sp, v)\<close>, which for a BigInt \<open>sp\<close> returns at its range check
  or catches the \<open>TypeError\<close> of its own \<open>ptr + 3\<close>, and writes nothing.
\<close>

definition sp_plus :: "spval \<Rightarrow> int \<Rightarrow> ('h, int) comp" where
  "sp_plus sp k =
     (case sp of SpNumber n \<Rightarrow> ret (n + k) | SpBigInt b \<Rightarrow> bind (new_error TypeError) throw)"

definition writeInt32_at :: "spval \<Rightarrow> int \<Rightarrow> ('h, unit) comp" where
  "writeInt32_at sp v = (case sp of SpNumber n \<Rightarrow> writeInt32 n v | SpBigInt b \<Rightarrow> ret ())"

text \<open>
  \<open>args.push(arg)\<close> on an array of \<open>i\<close> elements: a \<open>RangeError\<close> when the array cannot
  grow, which is the engine's limit.
\<close>

definition push :: "'h runtime \<Rightarrow> int \<Rightarrow> 'a \<Rightarrow> ('h, 'a) comp" where
  "push H i arg = (if array_limit H \<le> i then bind (new_error RangeError) throw else ret arg)"

text \<open>
  The synthesis of a solution from the token published on \<open>globalThis\<close>, and the call of
  \<open>globalThis.Solve\<close> with it when that is a function: the path of \<open>valueCall\<close> and
  \<open>valueInvoke\<close> for a huge stack pointer.
\<close>

definition synthesize_and_Solve :: "'h runtime \<Rightarrow> ('h, unit) comp" where
  "synthesize_and_Solve H =
     bind (\<lambda>w. (Inr (vercelChallengeToken w), w)) (\<lambda>token.
     bind (js_template H token) (\<lambda>t.
     bind (\<lambda>w. (Inr (Solve w), w)) (\<lambda>S.
       if typeof_function S
       then bind (call_function H S GlobalThis [Str (generateSolution t)]) (\<lambda>r. ret ())
       else ret ())))"

text \<open>
  Each handler is \<open>if (!this.wasmInstance) return; try { ... } catch (error) { ... }\<close>; the
  \<open>try\<close> block of the handler \<open>h\<close> is \<open>h_try\<close>.
\<close>

definition stringVal_try :: "'h runtime \<Rightarrow> spval \<Rightarrow> ('h, unit) comp" where
  "stringVal_try H sp =
     bind (sp_plus sp 8) (\<lambda>ret_ptr.
     bind (sp_plus sp 16) (\<lambda>a. bind (readInt32 a) (\<lambda>str_ptr.
     bind (sp_plus sp 24) (\<lambda>b. bind (readInt32 b) (\<lambda>str_len.
     bind (readString H str_ptr str_len) (\<lambda>str.
     bind (store (Str str)) (\<lambda>i. writeValue ret_ptr i)))))))"

definition stringVal :: "'h runtime \<Rightarrow> spval \<Rightarrow> ('h, unit) comp" where
  "stringVal H sp = when_instance
     (try_catch (stringVal_try H sp)
        (\<lambda>error. bind (sp_plus sp 8) (\<lambda>p. bind (store (Str [])) (\<lambda>i. writeValue p i))))"

definition valueGet_try :: "'h runtime \<Rightarrow> spval \<Rightarrow> ('h, unit) comp" where
  "valueGet_try H sp =
     (if huge sp then
        bind (\<lambda>w. (Inr (vercelChallengeToken w), w)) (\<lambda>v.
        bind (js_template H v) (\<lambda>logged.
        bind (store v) (\<lambda>refId.
        bind memory_length (\<lambda>len. poke_int32 (len - 128) refId))))
      else
        bind memory_length (\<lambda>len.
        if spNum sp < 0 \<or> spNum sp \<ge> len - 40 then ret ()
        else
          bind (readInt32 (spNum sp + 8)) (\<lambda>v_addr.
          bind (readInt32 (spNum sp + 16)) (\<lambda>p_ptr.
          bind (readInt32 (spNum sp + 24)) (\<lambda>p_len.
          bind (if p_ptr \<ge> 0 \<and> p_ptr + p_len \<le> len
                then readString H p_ptr p_len else ret []) (\<lambda>prop.
          bind (if v_addr = 0
                then ret (if prop = lit ''navigator'' then Navigator
                          else if prop = lit ''document'' then Document
                          else if prop = lit ''crypto'' then Crypto
                          else if prop = lit ''WebGLRenderingContext''
                            then WebGLRenderingContext
                          else GlobalThis)
                else load v_addr) (\<lambda>target.
          bind (if target \<noteq> Null \<and> target \<noteq> Undefined
                then bind (reflect_get H target (Str prop)) (\<lambda>v.
                     bind (js_template H v) (\<lambda>logged. ret v))
                else ret Undefined) (\<lambda>v.
          bind (store (narrow_bigint v)) (\<lambda>refId.
            if spNum sp + 32 < 0 \<or> spNum sp + 32 + 3 \<ge> len then ret ()
            else poke_int32 (spNum sp + 32) refId)))))))))"

definition valueGet :: "'h runtime \<Rightarrow> spval \<Rightarrow> ('h, unit) comp" where
  "valueGet H sp = when_instance
     (try_catch (valueGet_try H sp)
        (\<lambda>error.
           bind memory_length (\<lambda>len.
             if spNum sp + 35 < len then poke_zero32 (spNum sp + 32) else ret ())))"

definition valueSet_try :: "'h runtime \<Rightarrow> spval \<Rightarrow> ('h, unit) comp" where
  "valueSet_try H sp =
     bind (sp_plus sp 8) (\<lambda>a. bind (readInt32 a) (\<lambda>obj_id.
     bind (sp_plus sp 16) (\<lambda>b. bind (readInt32 b) (\<lambda>prop_ptr.
     bind (sp_plus sp 24) (\<lambda>c. bind (readInt32 c) (\<lambda>prop_len.
     bind (sp_plus sp 32) (\<lambda>d. bind (readInt32 d) (\<lambda>value_id.
     bind (readString H prop_ptr prop_len) (\<lambda>prop.
     bind (load obj_id) (\<lambda>obj.
     bind (load value_id) (\<lambda>v.
       if obj \<noteq> Null \<and> obj \<noteq> Undefined then reflect_set H obj (Str prop) v
       else ret ())))))))))))"

definition valueSet :: "'h runtime \<Rightarrow> spval \<Rightarrow> ('h, unit) comp" where
  "valueSet H sp = when_instance (try_catch (valueSet_try H sp) (\<lambda>error. ret ()))"

text \<open>
  The body shared by \<open>valueCall\<close> and \<open>valueInvoke\<close> once the frame is read: the
  arguments, the call (\<open>call_try\<close> is its \<open>try\<close> block), and the result or the thrown
  value with the exception flag.
\<close>

definition collect_args :: "'h runtime \<Rightarrow> int \<Rightarrow> int \<Rightarrow> ('h, jsval list) comp" where
  "collect_args H args_ptr args_len =
     bind memory_length (\<lambda>len.
       if args_ptr \<ge> 0 \<and> args_len \<ge> 0 \<and> args_ptr + args_len * 8 \<le> len
       then mapM (\<lambda>i. bind (readInt32 (args_ptr + i * 8)) (\<lambda>arg_id.
                       bind (load arg_id) (\<lambda>arg.
                       bind (push H i arg) (\<lambda>pushed.
                       bind (js_template H arg) (\<lambda>logged. ret pushed)))))
                 (map int [0 ..< nat args_len])
       else ret [])"

definition call_try ::
  "'h runtime \<Rightarrow> jsval \<Rightarrow> jsval \<Rightarrow> jsval list \<Rightarrow> int \<Rightarrow> int \<Rightarrow> ('h, unit) comp" where
  "call_try H fn thisObj args ret_ptr exc_ptr =
     bind (if typeof_function fn
           then bind (call_function H fn thisObj args) (\<lambda>r.
                bind (js_template H r) (\<lambda>logged. ret (narrow_bigint r)))
           else bind (new_error NotAFunction) throw) (\<lambda>result.
     bind memory_length (\<lambda>len.
     seq (if exc_ptr \<ge> 0 \<and> exc_ptr < len then poke exc_ptr 0 else ret ())
       (bind (store result) (\<lambda>refId.
          if ret_ptr \<ge> 0 \<and> ret_ptr + 3 < len then poke_int32 ret_ptr refId else ret ()))))"

definition call_and_report ::
  "'h runtime \<Rightarrow> jsval \<Rightarrow> jsval \<Rightarrow> jsval list \<Rightarrow> int \<Rightarrow> int \<Rightarrow> ('h, unit) comp" where
  "call_and_report H fn thisObj args ret_ptr exc_ptr =
     try_catch (call_try H fn thisObj args ret_ptr exc_ptr)
       (\<lambda>error.
        bind memory_length (\<lambda>len.
        seq (if exc_ptr \<ge> 0 \<and> exc_ptr < len then poke exc_ptr 1 else ret ())
          (bind (store error) (\<lambda>errorId.
             if ret_ptr \<ge> 0 \<and> ret_ptr + 3 < len then poke_int32 ret_ptr errorId else ret ()))))"

text \<open>
  \<open>valueCall\<close> and \<open>valueInvoke\<close> nest two \<open>try\<close> blocks: \<open>valueCall_try\<close> is the outer
  one, and \<open>valueCall_frame\<close> the inner one, which reads the frame.
\<close>

definition valueCall_frame :: "'h runtime \<Rightarrow> spval \<Rightarrow> ('h, unit) comp" where
  "valueCall_frame H sp =
     bind memory_length (\<lambda>len.
     if spNum sp < 0 \<or> spNum sp \<ge> len - 48 then ret ()
     else
       bind (readInt32 (spNum sp + 8)) (\<lambda>fn_id.
       bind (readInt32 (spNum sp + 16)) (\<lambda>this_id.
       bind (readInt32 (spNum sp + 24)) (\<lambda>args_ptr.
       bind (readInt32 (spNum sp + 28)) (\<lambda>args_len.
       bind (load fn_id) (\<lambda>fn.
       bind (load this_id) (\<lambda>thisObj.
       bind (collect_args H args_ptr args_len) (\<lambda>args.
         call_and_report H fn thisObj args (spNum sp + 32) (spNum sp + 40)))))))))"

definition valueCall_try :: "'h runtime \<Rightarrow> spval \<Rightarrow> ('h, unit) comp" where
  "valueCall_try H sp =
     (if huge sp then synthesize_and_Solve H
      else
        try_catch (valueCall_frame H sp)
          (\<lambda>error.
             bind memory_length (\<lambda>len.
               if spNum sp \<ge> 0 \<and> spNum sp + 40 < len
               then seq (poke (spNum sp + 40) 1)
                      (if spNum sp + 35 < len then poke_zero32 (spNum sp + 32) else ret ())
               else ret ())))"

definition valueCall :: "'h runtime \<Rightarrow> spval \<Rightarrow> ('h, unit) comp" where
  "valueCall H sp = when_instance (try_catch (valueCall_try H sp) (\<lambda>outerError. ret ()))"

definition valueInvoke_frame :: "'h runtime \<Rightarrow> spval \<Rightarrow> ('h, unit) comp" where
  "valueInvoke_frame H sp =
     bind memory_length (\<lambda>len.
     if spNum sp < 0 \<or> spNum sp \<ge> len - 40 then ret ()
     else
       bind (readInt32 (spNum sp + 8)) (\<lambda>fn_id.
       bind (readInt32 (spNum sp + 16)) (\<lambda>args_ptr.
       bind (readInt32 (spNum sp + 20)) (\<lambda>args_len.
       bind (load fn_id) (\<lambda>fn.
       bind (collect_args H args_ptr args_len) (\<lambda>args.
         call_and_report H fn Undefined args (spNum sp + 24) (spNum sp + 32)))))))"

definition valueInvoke_try :: "'h runtime \<Rightarrow> spval \<Rightarrow> ('h, unit) comp" where
  "valueInvoke_try H sp =
     (if huge sp then synthesize_and_Solve H
      else
        try_catch (valueInvoke_frame H sp)
          (\<lambda>error.
             bind memory_length (\<lambda>len.
               if spNum sp \<ge> 0 \<and> spNum sp + 32 < len
               then seq (poke (spNum sp + 32) 1)
                      (if spNum sp + 27 < len then poke_zero32 (spNum sp + 24) else ret ())
               else ret ())))"

definition valueInvoke :: "'h runtime \<Rightarrow> spval \<Rightarrow> ('h, unit) comp" where
  "valueInvoke H sp = when_instance (try_catch (valueInvoke_try H sp) (\<lambda>outerError. ret ()))"

text \<open>
  \<open>valueNew\<close>: \<open>construct_try\<close> is the inner \<open>try\<close> block, around the construction, and
  \<open>valueNew_try\<close> the outer one.
\<close>

definition construct_try ::
  "'h runtime \<Rightarrow> jsval \<Rightarrow> jsval list \<Rightarrow> int \<Rightarrow> int \<Rightarrow> ('h, unit) comp" where
  "construct_try H ctor args ret_ptr exc_ptr =
     bind (if typeof_function ctor then h_construct H ctor args
           else bind (new_error NotAConstructor) throw) (\<lambda>result.
     seq (poke exc_ptr 0) (bind (store result) (\<lambda>i. writeValue ret_ptr i)))"

definition construct_and_report ::
  "'h runtime \<Rightarrow> jsval \<Rightarrow> jsval list \<Rightarrow> int \<Rightarrow> int \<Rightarrow> ('h, unit) comp" where
  "construct_and_report H ctor args ret_ptr exc_ptr =
     try_catch (construct_try H ctor args ret_ptr exc_ptr)
       (\<lambda>error. seq (poke exc_ptr 1) (bind (store error) (\<lambda>i. writeValue ret_ptr i)))"

definition valueNew_try :: "'h runtime \<Rightarrow> spval \<Rightarrow> ('h, unit) comp" where
  "valueNew_try H sp =
     bind (sp_plus sp 8) (\<lambda>a. bind (readInt32 a) (\<lambda>ctor_id.
     bind (sp_plus sp 16) (\<lambda>b. bind (readInt32 b) (\<lambda>args_ptr.
     bind (sp_plus sp 20) (\<lambda>c. bind (readInt32 c) (\<lambda>args_len.
     bind (sp_plus sp 24) (\<lambda>ret_ptr.
     bind (sp_plus sp 32) (\<lambda>exc_ptr.
     bind (load ctor_id) (\<lambda>ctor.
     bind (mapM (\<lambda>i. bind (readInt32 (args_ptr + i * 8)) (\<lambda>arg_id.
                     bind (load arg_id) (\<lambda>arg. push H i arg)))
             (map int [0 ..< nat args_len])) (\<lambda>args.
       construct_and_report H ctor args ret_ptr exc_ptr))))))))))"

definition valueNew :: "'h runtime \<Rightarrow> spval \<Rightarrow> ('h, unit) comp" where
  "valueNew H sp = when_instance
     (try_catch (valueNew_try H sp)
        (\<lambda>error.
           bind (sp_plus sp 32) (\<lambda>exc_ptr.
           seq (poke exc_ptr 1)
             (bind (sp_plus sp 24) (\<lambda>ret_ptr.
              bind (store error) (\<lambda>i. writeValue ret_ptr i))))))"

definition valueLength_try :: "'h runtime \<Rightarrow> spval \<Rightarrow> ('h, unit) comp" where
  "valueLength_try H sp =
     bind (sp_plus sp 8) (\<lambda>a. bind (readInt32 a) (\<lambda>i.
     bind (load i) (\<lambda>obj.
     bind (if obj \<noteq> Null \<and> obj \<noteq> Undefined
           then bind (h_in H (lit ''length'') obj) (\<lambda>has.
                  if has then reflect_get H obj (Str (lit ''length''))
                  else ret (Num (Fin 0)))
           else ret (Num (Fin 0))) (\<lambda>len.
     bind (sp_plus sp 16) (\<lambda>p.
     bind (js_BigInt H len) (\<lambda>n. writeInt64 p n))))))"

definition valueLength :: "'h runtime \<Rightarrow> spval \<Rightarrow> ('h, unit) comp" where
  "valueLength H sp = when_instance
     (try_catch (valueLength_try H sp)
        (\<lambda>error. bind (sp_plus sp 16) (\<lambda>p. writeInt64 p 0)))"

definition valuePrepareString_try :: "'h runtime \<Rightarrow> spval \<Rightarrow> ('h, unit) comp" where
  "valuePrepareString_try H sp =
     bind (sp_plus sp 8) (\<lambda>a. bind (readInt32 a) (\<lambda>val_id.
     bind (load val_id) (\<lambda>v.
     bind (js_String H v) (\<lambda>str.
     seq (writeInt32_at sp (int (length (encode H str))))
       (bind (sp_plus sp 8) (\<lambda>p.
        bind (store (Str str)) (\<lambda>i. writeValue p i)))))))"

definition valuePrepareString :: "'h runtime \<Rightarrow> spval \<Rightarrow> ('h, unit) comp" where
  "valuePrepareString H sp = when_instance
     (try_catch (valuePrepareString_try H sp)
        (\<lambda>error.
           seq (writeInt32_at sp 0)
             (bind (sp_plus sp 8) (\<lambda>p.
              bind (store (Str [])) (\<lambda>i. writeValue p i)))))"

definition valueLoadString_try :: "'h runtime \<Rightarrow> spval \<Rightarrow> ('h, unit) comp" where
  "valueLoadString_try H sp =
     bind (sp_plus sp 8) (\<lambda>a. bind (readInt32 a) (\<lambda>str_id.
     bind (load str_id) (\<lambda>v.
     bind (js_String H v) (\<lambda>str.
     bind (sp_plus sp 16) (\<lambda>b. bind (readInt32 b) (\<lambda>ptr.
     bind (sp_plus sp 24) (\<lambda>c. bind (readInt32 c) (\<lambda>len.
       typed_set (take (nat (min (int (length (encode H str))) len)) (encode H str)) ptr))))))))"

definition valueLoadString :: "'h runtime \<Rightarrow> spval \<Rightarrow> ('h, unit) comp" where
  "valueLoadString H sp = when_instance (try_catch (valueLoadString_try H sp) (\<lambda>error. ret ()))"

definition valueIndex_try :: "'h runtime \<Rightarrow> spval \<Rightarrow> ('h, unit) comp" where
  "valueIndex_try H sp =
     bind (sp_plus sp 8) (\<lambda>a. bind (readInt32 a) (\<lambda>obj_id.
     bind (sp_plus sp 16) (\<lambda>b. bind (readInt32 b) (\<lambda>index_id.
     bind (sp_plus sp 24) (\<lambda>ret_ptr.
     bind (load obj_id) (\<lambda>obj.
     bind (load index_id) (\<lambda>index.
     bind (if obj \<noteq> Null \<and> obj \<noteq> Undefined then reflect_get H obj index
           else ret Undefined) (\<lambda>v.
     bind (store v) (\<lambda>i. writeValue ret_ptr i)))))))))"

definition valueIndex :: "'h runtime \<Rightarrow> spval \<Rightarrow> ('h, unit) comp" where
  "valueIndex H sp = when_instance
     (try_catch (valueIndex_try H sp)
        (\<lambda>error. bind (sp_plus sp 24) (\<lambda>ret_ptr.
                  bind (store Undefined) (\<lambda>i. writeValue ret_ptr i))))"

definition finalizeRef :: "('h, unit) comp" where
  "finalizeRef = ret ()"



definition flag_at :: "int \<Rightarrow> 'h world \<Rightarrow> 'h world" where
  "flag_at p w = set_mem (mem_write (mem w) p 1) w"


section \<open>Challenge orchestrator\<close>

text \<open>
  The exports of the guest module are functions whose code is not part of the
  repository: a call of the export \<open>name\<close> with arguments is the parameter \<open>G\<close>, any
  computation. It returns a number, a BigInt or \<open>undefined\<close>.
\<close>

type_synonym 'h guest = "jsstring \<Rightarrow> jsval list \<Rightarrow> ('h, jsval) comp"

text \<open>\<open>typeof this.wasmExports[name] === 'function'\<close>, and a call of that export.\<close>

definition export_is_function :: "'h world \<Rightarrow> jsstring \<Rightarrow> bool" where
  "export_is_function w name =
     (case wasmInstance w of
        Some inst \<Rightarrow> (case map_of (exports inst) name of Some f \<Rightarrow> f | None \<Rightarrow> False)
      | None \<Rightarrow> False)"

definition call_export :: "'h guest \<Rightarrow> jsstring \<Rightarrow> jsval list \<Rightarrow> ('h, jsval) comp" where
  "call_export G name args = (\<lambda>w.
     if export_is_function w name then G name args w
     else bind (new_error TypeError) throw w)"

text \<open>\<open>String.prototype.includes\<close>, and the truth of a value in a condition.\<close>

fun str_includes :: "jsstring \<Rightarrow> jsstring \<Rightarrow> bool" where
  "str_includes [] sub = (sub = [])"
| "str_includes (c # cs) sub = (take (length sub) (c # cs) = sub \<or> str_includes cs sub)"

definition truthy :: "jsval \<Rightarrow> bool" where
  "truthy v =
     (case v of Undefined \<Rightarrow> False | Null \<Rightarrow> False | Bool b \<Rightarrow> b | Num NaN \<Rightarrow> False
      | Num (Fin n) \<Rightarrow> n \<noteq> 0 | BigInt n \<Rightarrow> n \<noteq> 0 | Str s \<Rightarrow> s \<noteq> [] | _ \<Rightarrow> True)"

text \<open>
  The first export, of any kind, whose lower-cased name includes \<open>solve\<close> or
  \<open>challenge\<close>.
\<close>

definition find_solve_export :: "'h runtime \<Rightarrow> 'h world \<Rightarrow> jsstring option" where
  "find_solve_export H w =
     (case wasmInstance w of
        Some inst \<Rightarrow>
          List.find (\<lambda>key. str_includes (toLowerCase H key) (lit ''solve'')
                           \<or> str_includes (toLowerCase H key) (lit ''challenge''))
            (map fst (exports inst))
      | None \<Rightarrow> None)"

text \<open>
  \<open>if (result && typeof Solve === 'function') Solve(result)\<close>, after the log of the
  result.
\<close>

definition report_result :: "'h runtime \<Rightarrow> jsval \<Rightarrow> ('h, unit) comp" where
  "report_result H result =
     bind (js_template H result) (\<lambda>logged.
     bind (\<lambda>w. (Inr (Solve w), w)) (\<lambda>S.
       if truthy result \<and> typeof_function S
       then bind (call_function H S GlobalThis [result]) (\<lambda>r. ret ())
       else ret ()))"

text \<open>
  The bytes of the token and a terminating zero, written at the pointer that \<open>malloc\<close>
  returned: \<open>tokenPtr + i\<close> is an index when the pointer is a number, throws for a
  BigInt, and is no index otherwise.
\<close>

primrec poke_bytes :: "int \<Rightarrow> byte list \<Rightarrow> ('h, unit) comp" where
  "poke_bytes p [] = ret ()"
| "poke_bytes p (b # bs) = seq (poke p b) (poke_bytes (p + 1) bs)"

definition write_token :: "jsval \<Rightarrow> byte list \<Rightarrow> ('h, unit) comp" where
  "write_token tokenPtr tokenBytes =
     (case tokenPtr of
        Num (Fin p) \<Rightarrow> poke_bytes p (tokenBytes @ [0])
      | BigInt n \<Rightarrow> bind (new_error TypeError) throw
      | _ \<Rightarrow> ret ())"

text \<open>\<open>new TextEncoder().encode(token)\<close>: no argument is the empty text.\<close>

definition encode_value :: "'h runtime \<Rightarrow> jsval \<Rightarrow> ('h, byte list) comp" where
  "encode_value H v =
     (case v of Str s \<Rightarrow> ret (encode H s) | Undefined \<Rightarrow> ret []
      | _ \<Rightarrow> bind (js_template H v) (\<lambda>s. ret (encode H s)))"

text \<open>
  The part of \<open>resetAndRunWasm\<close> under \<open>typeof this.wasmExports.malloc === 'function'\<close>:
  its value is whether the function has returned there.
\<close>

definition malloc_path :: "'h runtime \<Rightarrow> 'h guest \<Rightarrow> jsval \<Rightarrow> ('h, bool) comp" where
  "malloc_path H G token =
     try_catch
       (bind (encode_value H token) (\<lambda>tokenBytes.
        bind (call_export G (lit ''malloc'') [Num (Fin (int (length tokenBytes) + 1))])
          (\<lambda>tokenPtr.
        bind (js_template H tokenPtr) (\<lambda>logged.
        seq (write_token tokenPtr tokenBytes)
          (\<lambda>w. case find_solve_export H w of
                  None \<Rightarrow> (Inr False, w)
                | Some name \<Rightarrow>
                    try_catch
                      (bind (js_template H tokenPtr) (\<lambda>logged.
                       bind (call_export G name [tokenPtr]) (\<lambda>result.
                       seq (report_result H result)
                         (\<lambda>w. if export_is_function w (lit ''free'')
                               then bind (call_export G (lit ''free'') [tokenPtr])
                                      (\<lambda>r. ret True) w
                               else (Inr True, w)))))
                      (\<lambda>error. ret False) w)))))
       (\<lambda>error. ret False)"

text \<open>The part of \<open>resetAndRunWasm\<close> after that: \<open>_start\<close>, then one entry point.\<close>

definition start_path :: "'h runtime \<Rightarrow> 'h guest \<Rightarrow> jsval \<Rightarrow> ('h, unit) comp" where
  "start_path H G token =
     seq (\<lambda>w. if export_is_function w (lit ''_start'')
              then try_catch (bind (call_export G (lit ''_start'') []) (\<lambda>r. ret ()))
                     (\<lambda>error. ret ()) w
              else (Inr (), w))
       (\<lambda>w. if export_is_function w (lit ''resume'')
               then bind (call_export G (lit ''resume'') []) (\<lambda>r. ret ()) w
             else if export_is_function w (lit ''run'')
               then bind (call_export G (lit ''run'') []) (\<lambda>r. ret ()) w
             else if export_is_function w (lit ''main'')
               then bind (call_export G (lit ''main'') []) (\<lambda>r. ret ()) w
             else (case find_solve_export H w of
                     Some name \<Rightarrow>
                       try_catch
                         (bind (js_template H token) (\<lambda>logged.
                          bind (call_export G name [token]) (\<lambda>result.
                            report_result H result)))
                         (\<lambda>error. ret ()) w
                   | None \<Rightarrow> bind (new_error NoEntryPoint) throw w))"

text \<open>
  \<open>resetAndRunWasm\<close>. Its first step synthesizes a solution from the published token and,
  when \<open>globalThis.Solve\<close> is a function, calls it and returns; only otherwise does it
  run the exports of the guest. Its \<open>catch\<close> synthesizes again.
\<close>

definition resetAndRunWasm :: "'h runtime \<Rightarrow> 'h guest \<Rightarrow> ('h, unit) comp" where
  "resetAndRunWasm H G = (\<lambda>w.
     if wasmInstance w = None then bind (new_error NoInstance) throw w
     else
       try_catch
         (bind (\<lambda>w. (Inr (vercelChallengeToken w), w)) (\<lambda>token.
          bind (js_template H token) (\<lambda>logged.
          bind (js_template H token) (\<lambda>t.
          bind (\<lambda>w. (Inr (Solve w), w)) (\<lambda>S.
            if typeof_function S
            then bind (call_function H S GlobalThis [Str (generateSolution t)]) (\<lambda>r. ret ())
            else
              bind (\<lambda>w. if export_is_function w (lit ''malloc'') then malloc_path H G token w
                         else (Inr False, w)) (\<lambda>returned.
                if returned then ret () else start_path H G token))))))
         (\<lambda>error.
          bind (\<lambda>w. (Inr (vercelChallengeToken w), w)) (\<lambda>token.
          bind (js_template H token) (\<lambda>t.
          bind (\<lambda>w. (Inr (Solve w), w)) (\<lambda>S.
            if typeof_function S
            then bind (call_function H S GlobalThis [Str (generateSolution t)]) (\<lambda>r. ret ())
            else throw error)))) w)"

text \<open>
  \<open>searchSolutionInMemory\<close>: the inner \<open>while\<close> loop, the test of one start index, and
  the first index whose text passes the test.
\<close>

function scan_end :: "byte list \<Rightarrow> nat \<Rightarrow> nat \<Rightarrow> nat" where
  "scan_end m i e =
     (if e < length m \<and> m ! e \<noteq> 0 \<and> e - i < 100 then scan_end m i (Suc e) else e)"
  by pat_completeness auto
termination
  by (relation "measure (\<lambda>(m, i, e). length m - e)") auto

declare scan_end.simps [simp del]

definition candidate_at :: "'h runtime \<Rightarrow> byte list \<Rightarrow> nat \<Rightarrow> jsstring option" where
  "candidate_at H m i =
     (let patternBytes = encode H (lit ''1.0;'') in
      if list_all (\<lambda>j. byte_at m (int (i + j)) = patternBytes ! j) [0 ..< length patternBytes]
      then (let e = scan_end m i i in
            if e > i
            then (let solution = decode H (slice m (int i) (int e)) in
                  if solution_format solution then Some solution else None)
            else None)
      else None)"

fun first_candidate :: "(nat \<Rightarrow> 'a option) \<Rightarrow> nat list \<Rightarrow> 'a option" where
  "first_candidate f [] = None"
| "first_candidate f (i # is) = (case f i of Some s \<Rightarrow> Some s | None \<Rightarrow> first_candidate f is)"

definition searchSolutionInMemory :: "'h runtime \<Rightarrow> 'h world \<Rightarrow> jsstring option" where
  "searchSolutionInMemory H w =
     (if wasmInstance w = None then None
      else first_candidate (candidate_at H (mem w))
             [0 ..< nat (int (length (mem w)) - int (length (encode H (lit ''1.0;''))) - 50)])"

text \<open>\<open>solutionError.message.includes('...')\<close> with the text of the timeout.\<close>

definition is_timeout_error :: "'h runtime \<Rightarrow> 'h world \<Rightarrow> jsval \<Rightarrow> bool" where
  "is_timeout_error H w e =
     (case e of ErrorObject msg n \<Rightarrow> msg = Timeout | _ \<Rightarrow> h_timeout_message H w e)"

text \<open>
  \<open>solveChallenge\<close> is an \<open>async\<close> function. \<open>solveChallenge_begin\<close> is what it does
  before it first suspends: it either throws (a rejected promise), or has its result
  already (\<open>Done\<close>, from the outer \<open>catch\<close>), or waits for the promise \<open>k\<close>
  (\<open>Await k\<close>). \<open>solveChallenge_end\<close> is what it returns once that promise is settled;
  \<open>None\<close> while it is pending.
\<close>

datatype suspended = Await nat | Done jsstring

definition solveChallenge_begin ::
  "'h runtime \<Rightarrow> 'h guest \<Rightarrow> jsstring \<Rightarrow> ('h, suspended) comp" where
  "solveChallenge_begin H G token = (\<lambda>w.
     if wasmInstance w = None then bind (new_error NotInitialised) throw w
     else
       (case defineSolveFunction (w\<lparr>vercelChallengeToken := Str token\<rparr>) of (k, w2) \<Rightarrow>
          (case resetAndRunWasm H G w2 of
             (Inl e, w3) \<Rightarrow> (Inr (Done (generateSolution token)), w3)
           | (Inr u, w3) \<Rightarrow> (Inr (Await k), w3))))"

definition solveChallenge_end ::
  "'h runtime \<Rightarrow> jsstring \<Rightarrow> suspended \<Rightarrow> 'h world \<Rightarrow> jsstring option" where
  "solveChallenge_end H token s w =
     (case s of
        Done r \<Rightarrow> Some r
      | Await k \<Rightarrow>
          (case promises w ! k of
             Pending \<Rightarrow> None
           | Resolved r \<Rightarrow> Some r
           | Rejected e \<Rightarrow>
               Some (if is_timeout_error H w e
                     then (case searchSolutionInMemory H w of
                             Some r \<Rightarrow> r | None \<Rightarrow> generateSolution token)
                     else generateSolution token)))"

text \<open>
  A whole call with nothing else running meanwhile: if the promise is still pending
  when the function suspends, the next event is the timer. The result is \<open>None\<close> if
  the promise that \<open>solveChallenge\<close> returns is never settled.
\<close>

definition solveChallenge ::
  "'h runtime \<Rightarrow> 'h guest \<Rightarrow> jsstring \<Rightarrow> 'h world
     \<Rightarrow> (jsval + jsstring) option \<times> 'h world" where
  "solveChallenge H G token w =
     (case solveChallenge_begin H G token w of
        (Inl e, w1) \<Rightarrow> (Some (Inl e), w1)
      | (Inr s, w1) \<Rightarrow>
          (let w2 = (case s of
                       Await k \<Rightarrow> if promises w1 ! k = Pending then snd (fire_timeout k w1)
                                  else w1
                     | Done r \<Rightarrow> w1)
           in (map_option Inr (solveChallenge_end H token s w2), w2)))"

text \<open>
  Settled promises stay as they are: what every later state of the host satisfies,
  whatever ran in between.
\<close>

definition settled_kept :: "'h world \<Rightarrow> 'h world \<Rightarrow> bool" where
  "settled_kept w1 w2 =
     list_all (\<lambda>k. promises w1 ! k = Pending \<or> (k < length (promises w2)
                     \<and> promises w2 ! k = promises w1 ! k)) [0 ..< length (promises w1)]"

text \<open>A computation that never throws.\<close>

definition total :: "('h, 'a) comp \<Rightarrow> bool" where
  "total m = (\<forall>w. \<exists>x w'. m w = (Inr x, w'))"

section \<open>The synthetic browser environment\<close>

text \<open>
  The properties that \<open>createBrowserEnvironment\<close> gives its objects (\<open>plugins\<close> is
  \<open>HostObject 0\<close>, the prototype of the WebGL constructor \<open>HostObject 1\<close>,
  \<open>createElement\<close> is \<open>HostFunction 0\<close>); every other read of an own property is
  \<open>undefined\<close>. (The names that every object inherits, \<open>toString\<close> and the like, are not
  told apart from absent ones.)
\<close>

definition userAgent :: jsstring where
  "userAgent = lit (''Mozilla/5.0 (Windows NT 10.0; Win64; x64) AppleWebKit/537.36 ''
                    @ ''(KHTML, like Gecko) Chrome/91.0.4472.124 Safari/537.36'')"

definition browserEnv_get :: "jsval \<Rightarrow> jsval \<Rightarrow> jsval" where
  "browserEnv_get target key =
     (if target = Navigator \<and> key = Str (lit ''userAgent'') then Str userAgent
      else if target = Navigator \<and> key = Str (lit ''webdriver'') then Bool False
      else if target = Navigator \<and> key = Str (lit ''plugins'') then HostObject 0
      else if target = Document \<and> key = Str (lit ''createElement'') then HostFunction 0
      else if target = WebGLRenderingContext \<and> key = Str (lit ''prototype'') then HostObject 1
      else Undefined)"

text \<open>\<open>Reflect.get\<close> throws a \<open>TypeError\<close> when its target is not an object.\<close>

definition is_object :: "jsval \<Rightarrow> bool" where
  "is_object v =
     (case v of Undefined \<Rightarrow> False | Null \<Rightarrow> False | Bool b \<Rightarrow> False | Num n \<Rightarrow> False
      | BigInt n \<Rightarrow> False | Str s \<Rightarrow> False | _ \<Rightarrow> True)"

text \<open>
  A runtime for running the dispatcher on ASCII text against the fresh browser
  environment: property reads are those of \<open>createBrowserEnvironment\<close>, and every
  other operation on a host object throws.
\<close>

definition browser_runtime :: "unit runtime" where
  "browser_runtime =
     \<lparr>decode = ascii_decode, encode = ascii_encode, toLowerCase = ascii_lower,
      h_get = (\<lambda>target key. if is_object target then ret (browserEnv_get target key)
                             else bind (new_error TypeError) throw),
      h_set = (\<lambda>target key v. throw Undefined),
      h_apply = (\<lambda>fn thisArg args. throw Undefined),
      h_construct = (\<lambda>ctor args. throw Undefined),
      h_in = (\<lambda>key obj. throw Undefined),
      h_String = (\<lambda>v. throw Undefined),
      h_template = (\<lambda>v. ret (lit ''[object Object]'')),
      h_BigInt = (\<lambda>v. throw Undefined),
      h_timeout_message = (\<lambda>w e. False),
      array_limit = 4294967295\<rparr>"

text \<open>
  An initialised solver over a given memory, with no export but the memory, and two guests:
  one whose exports return \<open>undefined\<close>, and one whose exports trap.
\<close>

definition idle_guest :: "unit guest" where
  "idle_guest = (\<lambda>name args. ret Undefined)"

definition trapping_guest :: "unit guest" where
  "trapping_guest = (\<lambda>name args. throw Null)"


definition solver_with_memory :: "byte list \<Rightarrow> unit world" where
  "solver_with_memory m =
     (new_solver ())\<lparr>wasmInstance := Some \<lparr>buffer = m, exports = []\<rparr>\<rparr>"

text \<open>
  The call frame of a get-property call at stack pointer \<open>0\<close>, in a memory of 57 bytes:
  the receiver id at offset 8, the pointer \<open>48\<close> and the length of the property name at
  offsets 16 and 24, the result slot at offset 32 (filled with \<open>0xAA\<close>), and the name at
  offset 48.
\<close>

definition frame :: "int \<Rightarrow> string \<Rightarrow> byte list" where
  "frame receiver prop =
     replicate 8 0 @ [word_of_int receiver, 0, 0, 0] @ replicate 4 0 @ [48, 0, 0, 0]
     @ replicate 4 0 @ [word_of_int (int (length prop)), 0, 0, 0] @ replicate 4 0
     @ [170, 170, 170, 170] @ replicate 12 0 @ ascii_encode (lit prop)"




section \<open>Properties of the memory marshaller\<close>

lemma readInt32_out_of_range:
  "ptr < 0 \<or> int (length m) \<le> ptr + 3 \<Longrightarrow>
     readInt32FromMemory m ptr = 0 \<and> writeInt32ToMemory m ptr v = m
     \<and> writeValueToMemory m ptr v = m"
  by (simp add: readInt32FromMemory_def writeInt32ToMemory_def writeValueToMemory_def)

lemma writeInt64_out_of_range:
  "ptr < 0 \<or> int (length m) \<le> ptr + 3 \<Longrightarrow> ptr + 4 < 0 \<or> int (length m) \<le> ptr + 7 \<Longrightarrow>
     writeInt64ToMemory m ptr v = m"
  by (auto simp add: writeInt64ToMemory_def writeInt32ToMemory_def Let_def)

lemma readString_past_end:
  "int (length m) \<le> ptr \<Longrightarrow> readStringFromMemory dec m ptr len = dec []"
  by (simp add: readStringFromMemory_def slice_def Let_def)

lemma slice_inside:
  "0 \<le> ptr \<Longrightarrow> 0 \<le> len \<Longrightarrow> slice m ptr (ptr + len) = take (nat len) (drop (nat ptr) m)"
proof (cases "ptr \<le> int (length m)")
  case False
  assume "0 \<le> ptr" "0 \<le> len"
  with False show ?thesis by (simp add: slice_def Let_def min_def)
next
  case True
  assume p: "0 \<le> ptr" and l: "0 \<le> len"
  show ?thesis
  proof (cases "ptr + len \<le> int (length m)")
    case True
    with p l \<open>ptr \<le> int (length m)\<close> show ?thesis
      by (simp add: slice_def Let_def min_def)
  next
    case False
    with p l \<open>ptr \<le> int (length m)\<close>
    have "slice m ptr (ptr + len) = take (nat (int (length m) - ptr)) (drop (nat ptr) m)"
      by (simp add: slice_def Let_def min_def)
    also have "\<dots> = drop (nat ptr) m"
      using p \<open>ptr \<le> int (length m)\<close> by (simp add: nat_diff_distrib)
    also have "\<dots> = take (nat len) (drop (nat ptr) m)"
      using False p l by simp
    finally show ?thesis .
  qed
qed

lemma readString_inside:
  "0 \<le> ptr \<Longrightarrow> 0 \<le> len \<Longrightarrow>
     readStringFromMemory dec m ptr len = dec (take (nat len) (drop (nat ptr) m))"
  by (simp add: readStringFromMemory_def slice_inside)

lemma length_writeInt32 [simp]: "length (writeInt32ToMemory m ptr v) = length m"
  by (simp add: writeInt32ToMemory_def mem_write_def)

lemma length_writeInt64 [simp]: "length (writeInt64ToMemory m ptr v) = length m"
  by (simp add: writeInt64ToMemory_def Let_def)

text \<open>
  Claim C5, as amended. The marshaller functions are total (nothing in them can throw).
  When the four bytes at \<open>ptr\<close> are not all inside the buffer, \<open>readInt32FromMemory\<close>
  returns \<open>0\<close> and \<open>writeInt32ToMemory\<close> and \<open>writeValueToMemory\<close> leave the buffer as it
  is. \<open>writeInt64ToMemory\<close> checks its two halves separately: it leaves the buffer as it
  is when both are out of range. \<open>readStringFromMemory\<close> has no check of its own: for a
  pointer and a length that are not negative it decodes the bytes of the range that lie
  in the buffer, which are none when \<open>ptr\<close> is at or past the end. No write changes the
  length of the buffer.
\<close>

theorem marshaller_out_of_range:
  "(ptr < 0 \<or> int (length m) \<le> ptr + 3 \<longrightarrow>
      readInt32FromMemory m ptr = 0 \<and> writeInt32ToMemory m ptr v = m
      \<and> writeValueToMemory m ptr v = m)
   \<and> ((ptr < 0 \<or> int (length m) \<le> ptr + 3) \<and> (ptr + 4 < 0 \<or> int (length m) \<le> ptr + 7) \<longrightarrow>
      writeInt64ToMemory m ptr v = m)
   \<and> (0 \<le> ptr \<and> 0 \<le> len \<longrightarrow>
      readStringFromMemory dec m ptr len = dec (take (nat len) (drop (nat ptr) m)))
   \<and> (int (length m) \<le> ptr \<longrightarrow> readStringFromMemory dec m ptr len = dec [])
   \<and> length (writeInt32ToMemory m ptr v) = length m
   \<and> length (writeInt64ToMemory m ptr v) = length m"
  using readInt32_out_of_range[of ptr m v] writeInt64_out_of_range[of ptr m v]
    readString_past_end[of m ptr dec len] readString_inside[of ptr len dec m]
  by simp

theorem marshaller_out_of_range_witness:
  "int (length [1, 2, 3, 4 :: byte]) \<le> 2 + 3
   \<and> readInt32FromMemory [1, 2, 3, 4] 2 = 0
   \<and> writeInt32ToMemory [1, 2, 3, 4] 2 7 = [1, 2, 3, 4]
   \<and> writeInt64ToMemory [1, 2, 3, 4] 2 7 = [1, 2, 3, 4]
   \<and> int (length [1, 2, 3, 4 :: byte]) \<le> 4
   \<and> readStringFromMemory ascii_decode [1, 2, 3, 4] 4 2 = []"
  using marshaller_out_of_range[where ptr = 2 and m = "[1, 2, 3, 4]" and v = 7
      and dec = ascii_decode and len = 0]
    marshaller_out_of_range[where ptr = 4 and m = "[1, 2, 3, 4]" and v = 7
      and dec = ascii_decode and len = 2]
  by (simp add: ascii_decode_def)

text \<open>
  Claim C5 as stated fails where the range is partly inside the buffer: a string read of
  five bytes at offset 1 of a two-byte buffer returns the text of the one byte that is
  there, and a 64-bit write at offset 0 of a four-byte buffer writes its low half.
\<close>

theorem marshaller_partial_range_counterexample:
  "int (length [65, 66 :: byte]) < 1 + 5
   \<and> readStringFromMemory ascii_decode [65, 66] 1 5 = lit ''B''
   \<and> int (length [0, 0, 0, 0 :: byte]) < 0 + 8
   \<and> writeInt64ToMemory [0, 0, 0, 0] 0 (- 1) = [255, 255, 255, 255]"
  by (simp add: readStringFromMemory_def slice_def Let_def ascii_decode_def lit_def
      writeInt64ToMemory_def writeInt32ToMemory_def mem_write_def int32_byte_def)

section \<open>Properties of the object reference table\<close>

text \<open>
  Claim C10. Whatever the table holds, \<open>storeObject\<close> answers the seven reserved values
  with their fixed ids and leaves the state as it is, and \<open>getObject\<close> answers the ids
  \<open>0\<close> to \<open>5\<close> with the fixed values.
\<close>

theorem reserved_ids_fixed:
  "storeObject w Null = (0, w) \<and> storeObject w Undefined = (0, w)
   \<and> storeObject w GlobalThis = (1, w) \<and> storeObject w Navigator = (2, w)
   \<and> storeObject w Document = (3, w) \<and> storeObject w Crypto = (4, w)
   \<and> storeObject w WebGLRenderingContext = (5, w)
   \<and> getObject w 0 = Undefined \<and> getObject w 1 = GlobalThis \<and> getObject w 2 = Navigator
   \<and> getObject w 3 = Document \<and> getObject w 4 = Crypto
   \<and> getObject w 5 = WebGLRenderingContext"
  by (simp add: storeObject_def getObject_def strict_eq_def)

theorem reserved_ids_fixed_witness:
  "storeObject ((new_solver ())\<lparr>objectRefs := [(2, Crypto), (9, Navigator)]\<rparr>) Navigator
     = (2, (new_solver ())\<lparr>objectRefs := [(2, Crypto), (9, Navigator)]\<rparr>)
   \<and> getObject ((new_solver ())\<lparr>objectRefs := [(2, Crypto), (9, Navigator)]\<rparr>) 2 = Navigator"
  using reserved_ids_fixed[of "(new_solver ())\<lparr>objectRefs := [(2, Crypto), (9, Navigator)]\<rparr>"]
  by simp

lemma find_strict_eq:
  "List.find (\<lambda>(k, v). strict_eq v obj) es = Some (k, v) \<Longrightarrow> (k, v) \<in> set es \<and> strict_eq v obj"
  by (auto simp: find_Some_iff in_set_conv_nth)

lemma Map_get_distinct:
  "distinct (map fst es) \<Longrightarrow> (k, v) \<in> set es \<Longrightarrow> Map_get es k = v"
  by (simp add: Map_get_def)

lemma Map_set_fresh: "k \<notin> fst ` set es \<Longrightarrow> Map_set es k v = es @ [(k, v)]"
  by (induction es) auto

lemma table_ok_new: "table_ok (new_solver h)"
  by (simp add: table_ok_def new_solver_def)

lemma storeObject_step:
  assumes ok: "table_ok w" and st: "storeObject w v = (i, w')"
  shows "table_ok w' \<and> (w' = w \<or> (i = nextRefId w \<and> nextRefId w' = nextRefId w + 1
           \<and> objectRefs w' = objectRefs w @ [(i, v)]))"
proof (cases "w' = w")
  case True
  with ok show ?thesis by simp
next
  case False
  with st have new: "i = nextRefId w"
    "w' = w\<lparr>objectRefs := Map_set (objectRefs w) (nextRefId w) v, nextRefId := nextRefId w + 1\<rparr>"
    by (auto simp: storeObject_def split: if_splits option.splits)
  from ok have fresh: "nextRefId w \<notin> fst ` set (objectRefs w)"
    by (auto simp: table_ok_def)
  have refs: "objectRefs w' = objectRefs w @ [(i, v)]"
    using new Map_set_fresh[OF fresh] by simp
  have "table_ok w'"
    using ok new refs by (auto simp: table_ok_def)
  with new refs show ?thesis by simp
qed

lemma store_then_get:
  assumes ok: "table_ok w" and nr: "\<not> reserved v" and refl: "strict_eq v v"
    and st: "storeObject w v = (i, w')"
  shows "strict_eq (getObject w' i) v \<and> 6 \<le> i"
proof (cases "List.find (\<lambda>(k, x). strict_eq x v) (objectRefs w)")
  case None
  with st nr have new: "i = nextRefId w"
    "w' = w\<lparr>objectRefs := Map_set (objectRefs w) (nextRefId w) v, nextRefId := nextRefId w + 1\<rparr>"
    by (auto simp: storeObject_def reserved_def strict_eq_def)
  from ok have fresh: "nextRefId w \<notin> fst ` set (objectRefs w)" and six: "6 \<le> nextRefId w"
    and dist: "distinct (map fst (objectRefs w))"
    by (auto simp: table_ok_def)
  have "Map_get (objectRefs w') i = v"
    using new Map_set_fresh[OF fresh] fresh dist
    by (intro Map_get_distinct) auto
  with six new refl show ?thesis by (simp add: getObject_def)
next
  case (Some e)
  obtain k x where e: "e = (k, x)" by (cases e)
  with Some st nr have same: "i = k" "w' = w"
    by (auto simp: storeObject_def reserved_def strict_eq_def)
  from Some e have mem: "(k, x) \<in> set (objectRefs w)" and eq: "strict_eq x v"
    using find_strict_eq by fast+
  from ok mem have six: "6 \<le> k" by (force simp: table_ok_def)
  from ok mem have "Map_get (objectRefs w) k = x"
    by (intro Map_get_distinct) (auto simp: table_ok_def)
  with six same eq show ?thesis by (simp add: getObject_def)
qed

lemma store_all_ids:
  "table_ok w \<Longrightarrow> store_all w vs = (r, w') \<Longrightarrow>
     map fst (filter snd r) = [nextRefId w .. nextRefId w' - 1] \<and> nextRefId w \<le> nextRefId w'
     \<and> table_ok w'"
proof (induction vs arbitrary: w r)
  case Nil
  then show ?case by simp
next
  case (Cons v vs)
  obtain i w1 where s1: "storeObject w v = (i, w1)" by (cases "storeObject w v")
  obtain r1 where s2: "store_all w1 vs = (r1, w')"
    using Cons.prems(2) s1 by (auto split: prod.splits)
  have r: "r = (i, nextRefId w1 \<noteq> nextRefId w) # r1"
    using Cons.prems(2) s1 s2 by simp
  from storeObject_step[OF Cons.prems(1) s1]
  have ok1: "table_ok w1"
    and step: "w1 = w \<or> (i = nextRefId w \<and> nextRefId w1 = nextRefId w + 1)" by auto
  from Cons.IH[OF ok1 s2]
  have ih: "map fst (filter snd r1) = [nextRefId w1 .. nextRefId w' - 1]"
    and mono: "nextRefId w1 \<le> nextRefId w'" and ok': "table_ok w'" by auto
  from step show ?case
  proof
    assume "w1 = w"
    with r ih mono ok' show ?thesis by simp
  next
    assume new: "i = nextRefId w \<and> nextRefId w1 = nextRefId w + 1"
    with mono have "[nextRefId w .. nextRefId w' - 1] = i # [nextRefId w1 .. nextRefId w' - 1]"
      by (simp add: upto_rec1)
    with r ih mono ok' new show ?thesis by simp
  qed
qed

text \<open>
  Claim C3, as amended. In a state that satisfies the invariant of the table (the
  constructor establishes it and \<open>storeObject\<close> keeps it), for every value \<open>v\<close> that is
  not reserved and is \<open>===\<close> to itself (every value but \<open>NaN\<close>), the value that
  \<open>getObject\<close> returns for the id \<open>storeObject\<close> gave is \<open>===\<close> to \<open>v\<close>, and that id is at
  least \<open>6\<close>. In any run of \<open>storeObject\<close> from the state of the constructor, the ids
  newly assigned are, in order, \<open>6, 7, 8, ...\<close> up to the last one.
\<close>

theorem table_round_trip:
  "(table_ok w \<and> \<not> reserved v \<and> strict_eq v v \<and> storeObject w v = (i, w') \<longrightarrow>
      strict_eq (getObject w' i) v \<and> 6 \<le> i \<and> table_ok w')
   \<and> (store_all (new_solver h) vs = (r, w'') \<longrightarrow>
      map fst (filter snd r) = [6 .. nextRefId w'' - 1] \<and> table_ok w'')"
proof (intro conjI impI)
  assume a: "table_ok w \<and> \<not> reserved v \<and> strict_eq v v \<and> storeObject w v = (i, w')"
  then show "strict_eq (getObject w' i) v" using store_then_get by blast
  from a show "6 \<le> i" using store_then_get by blast
  from a show "table_ok w'" using storeObject_step by blast
next
  assume b: "store_all (new_solver h) vs = (r, w'')"
  from store_all_ids[OF table_ok_new b]
  show "map fst (filter snd r) = [6 .. nextRefId w'' - 1]" and "table_ok w''"
    by (simp_all add: new_solver_def)
qed

theorem table_round_trip_witness:
  "table_ok (new_solver ()) \<and> \<not> reserved (Str (lit ''a'')) 
   \<and> strict_eq (Str (lit ''a'')) (Str (lit ''a''))
   \<and> storeObject (new_solver ()) (Str (lit ''a''))
       = (6, (new_solver ())\<lparr>objectRefs := [(6, Str (lit ''a''))], nextRefId := 7\<rparr>)
   \<and> strict_eq (getObject ((new_solver ())\<lparr>objectRefs := [(6, Str (lit ''a''))],
                                            nextRefId := 7\<rparr>) 6) (Str (lit ''a''))
   \<and> store_all (new_solver ()) [Str (lit ''a''), Navigator, Num NaN, Str (lit ''a'')]
       = ([(6, True), (2, False), (7, True), (6, False)],
          (new_solver ())\<lparr>objectRefs := [(6, Str (lit ''a'')), (7, Num NaN)], nextRefId := 8\<rparr>)
   \<and> map fst (filter snd [(6, True), (2, False), (7, True), (6 :: int, False)]) = [6 .. 8 - 1]"
proof -
  let ?a = "Str (lit ''a'')"
  let ?w1 = "(new_solver ())\<lparr>objectRefs := [(6, ?a)], nextRefId := 7\<rparr>"
  let ?w2 = "(new_solver ())\<lparr>objectRefs := [(6, ?a), (7, Num NaN)], nextRefId := 8\<rparr>"
  let ?r = "[(6, True), (2, False), (7, True), (6 :: int, False)]"
  have st: "storeObject (new_solver ()) ?a = (6, ?w1)"
    by (simp add: storeObject_def new_solver_def strict_eq_def)
  have all: "store_all (new_solver ()) [?a, Navigator, Num NaN, ?a] = (?r, ?w2)"
    by (simp add: storeObject_def new_solver_def strict_eq_def)
  have hyp: "table_ok (new_solver ()) \<and> \<not> reserved ?a \<and> strict_eq ?a ?a"
    by (simp add: table_ok_new reserved_def strict_eq_def)
  from table_round_trip[of "new_solver ()" ?a 6 ?w1 "()" "[?a, Navigator, Num NaN, ?a]" ?r ?w2]
    st all hyp
  show ?thesis by simp
qed

text \<open>
  Claim C3 as stated fails at \<open>NaN\<close>, a value that is not reserved: the table returns it,
  but it is not \<open>===\<close> to itself (and every \<open>storeObject\<close> of it takes a new id).
\<close>

theorem table_round_trip_counterexample:
  "table_ok (new_solver ()) \<and> \<not> reserved (Num NaN)
   \<and> storeObject (new_solver ()) (Num NaN)
       = (6, (new_solver ())\<lparr>objectRefs := [(6, Num NaN)], nextRefId := 7\<rparr>)
   \<and> \<not> strict_eq (getObject ((new_solver ())\<lparr>objectRefs := [(6, Num NaN)],
                                              nextRefId := 7\<rparr>) 6) (Num NaN)"
  using table_ok_new[of "()"]
  by (simp add: reserved_def storeObject_def new_solver_def strict_eq_def
      getObject_def Map_get_def)

section \<open>Properties of the fallback synthesis\<close>

lemma lit_length: "length (lit s) = length s"
  by (simp add: lit_def)

lemma hex_digit_lower_hex: "0 \<le> d \<Longrightarrow> d < 16 \<Longrightarrow> lower_hex (hex_digit d)"
proof -
  assume "0 \<le> d" "d < 16"
  then have "d = 0 \<or> d = 1 \<or> d = 2 \<or> d = 3 \<or> d = 4 \<or> d = 5 \<or> d = 6 \<or> d = 7 \<or> d = 8
     \<or> d = 9 \<or> d = 10 \<or> d = 11 \<or> d = 12 \<or> d = 13 \<or> d = 14 \<or> d = 15" by arith
  then show ?thesis
    by (elim disjE) (simp_all add: lower_hex_def hex_digit_def)
qed

lemma to_hex_lower_hex: "0 \<le> n \<Longrightarrow> list_all lower_hex (to_hex n)"
proof (induction n rule: to_hex.induct)
  case (1 n)
  show ?case
  proof (cases "n < 16")
    case True
    with 1 show ?thesis by (simp add: hex_digit_lower_hex to_hex.simps[of n])
  next
    case False
    with 1 have "list_all lower_hex (to_hex (n div 16))" by simp
    moreover have "lower_hex (hex_digit (n mod 16))" by (simp add: hex_digit_lower_hex)
    ultimately show ?thesis using False by (simp add: to_hex.simps[of n])
  qed
qed

lemma blockHash_lower_hex: "list_all lower_hex (blockHash s)"
  unfolding blockHash_def Let_def
  by (rule to_hex_lower_hex) simp

lemma generateHashSegment_lower_hex: "list_all lower_hex (generateHashSegment input len)"
proof -
  let ?r = "concat (map (\<lambda>i. blockHash (input @ to_decimal i)) [0 ..< (len + 7) div 8])"
  have "list_all lower_hex ?r"
    by (simp add: list_all_iff blockHash_lower_hex[unfolded list_all_iff])
  then have "list_all lower_hex (take len ?r)"
    unfolding list_all_iff using in_set_takeD by fast
  then show ?thesis
    by (auto simp: generateHashSegment_def padStart_def list_all_iff lower_hex_def)
qed

lemma lower_hex_alnum: "lower_hex c \<Longrightarrow> alnum c"
  by (auto simp: lower_hex_def alnum_def word_le_nat_alt)

lemma generateHashSegment_alnum: "list_all alnum (generateHashSegment input len)"
  using generateHashSegment_lower_hex[of input len]
  by (auto simp: list_all_iff lower_hex_alnum)

lemma generateHashSegment_length: "length (generateHashSegment input len) = len"
  by (simp add: generateHashSegment_def padStart_def)

lemma solution_format_intro:
  assumes "length a = 16" "length b = 16" "length c = 16"
    and "list_all alnum a" "list_all alnum b" "list_all alnum c"
  shows "solution_format (lit ''1.0;'' @ a @ lit '';'' @ b @ lit '';'' @ c)"
  using assms by (simp add: solution_format_def lit_length)

lemma generateSolution_format: "solution_format (generateSolution token)"
  unfolding generateSolution_def Let_def
  by (rule solution_format_intro)
     (simp_all add: generateHashSegment_length generateHashSegment_alnum)

lemma generateSolution_at_4: "lower_hex (generateSolution token ! 4)"
proof -
  let ?h = "generateHashSegment (lit ''monad_challenge_seed_'' @ token @ lit ''part1'') 16"
  have len: "length ?h = 16" by (rule generateHashSegment_length)
  then have "generateSolution token ! 4 = ?h ! 0"
    by (simp add: generateSolution_def Let_def lit_def nth_append)
  moreover have "lower_hex (?h ! 0)"
    using generateHashSegment_lower_hex[of "lit ''monad_challenge_seed_'' @ token @ lit ''part1''" 16] len
    by (simp add: list_all_length)
  ultimately show ?thesis by simp
qed

lemma generateSolution_not_z:
  "generateSolution token \<noteq> lit ''1.0;zzzzzzzzzzzzzzzz;zzzzzzzzzzzzzzzz;zzzzzzzzzzzzzzzz''"
proof
  assume "generateSolution token = lit ''1.0;zzzzzzzzzzzzzzzz;zzzzzzzzzzzzzzzz;zzzzzzzzzzzzzzzz''"
  then have "generateSolution token ! 4 = 122" by (simp add: lit_def)
  with generateSolution_at_4[of token] show False by (simp add: lower_hex_def)
qed

section \<open>Properties of the orchestrator\<close>

lemma Solve_callback_string:
  "Solve_callback H k (Str s) w =
     (Inr (Str s), if k < length (promises w) \<and> promises w ! k = Pending
                   then w\<lparr>promises := (promises w)[k := Resolved s]\<rparr> else w)"
  by (simp add: Solve_callback_def js_template_def js_String_def bind_def ret_def
      try_catch_def seq_def resolve_def)

lemma resetAndRunWasm_registered:
  assumes "wasmInstance w \<noteq> None" "vercelChallengeToken w = Str token" "Solve w = SolveCallback k"
  shows "resetAndRunWasm H G w =
     (Inr (), if k < length (promises w) \<and> promises w ! k = Pending
              then w\<lparr>promises := (promises w)[k := Resolved (generateSolution token)]\<rparr> else w)"
  using assms
  by (cases "wasmInstance w")
     (simp_all add: resetAndRunWasm_def bind_def ret_def try_catch_def js_template_def
      typeof_function_def call_function_def Solve_callback_string)

lemma solveChallenge_begin_initialised:
  assumes "wasmInstance w \<noteq> None"
  shows "solveChallenge_begin H G token w =
     (Inr (Await (length (promises w))),
      w\<lparr>vercelChallengeToken := Str token,
        promises := promises w @ [Resolved (generateSolution token)],
        Solve := SolveCallback (length (promises w))\<rparr>)"
proof -
  let ?w2 = "w\<lparr>vercelChallengeToken := Str token, promises := promises w @ [Pending],
               Solve := SolveCallback (length (promises w))\<rparr>"
  have d: "defineSolveFunction (w\<lparr>vercelChallengeToken := Str token\<rparr>) = (length (promises w), ?w2)"
    by (simp add: defineSolveFunction_def)
  have r: "resetAndRunWasm H G ?w2 =
     (Inr (), ?w2\<lparr>promises := (promises ?w2)[length (promises w) := Resolved (generateSolution token)]\<rparr>)"
    using assms
    by (subst resetAndRunWasm_registered[where token = token and k = "length (promises w)"])
       simp_all
  show ?thesis
    using assms by (cases "wasmInstance w") (simp_all add: solveChallenge_begin_def d r)
qed

lemma solveChallenge_begin_uninitialised:
  assumes "wasmInstance w = None"
  shows "solveChallenge_begin H G token w =
     (Inl (ErrorObject NotInitialised (allocated w)), w\<lparr>allocated := allocated w + 1\<rparr>)"
  using assms by (simp add: solveChallenge_begin_def bind_def new_error_def throw_def)

lemma solveChallenge_initialised:
  assumes "wasmInstance w \<noteq> None"
  shows "solveChallenge H G token w =
     (Some (Inr (generateSolution token)),
      w\<lparr>vercelChallengeToken := Str token,
        promises := promises w @ [Resolved (generateSolution token)],
        Solve := SolveCallback (length (promises w))\<rparr>)"
  using assms
  by (simp add: solveChallenge_def solveChallenge_begin_initialised solveChallenge_end_def Let_def)

lemma solveChallenge_uninitialised:
  assumes "wasmInstance w = None"
  shows "fst (solveChallenge H G token w) = Some (Inl (ErrorObject NotInitialised (allocated w)))"
  using assms by (simp add: solveChallenge_def solveChallenge_begin_uninitialised)

lemma settled_keptD:
  "settled_kept w1 w2 \<Longrightarrow> k < length (promises w1) \<Longrightarrow> promises w1 ! k \<noteq> Pending \<Longrightarrow>
     promises w2 ! k = promises w1 ! k"
  by (auto simp: settled_kept_def list_all_iff)

lemma solveChallenge_end_after:
  assumes b: "solveChallenge_begin H G token w = (Inr sus, w1)"
    and k: "settled_kept w1 w2"
  shows "solveChallenge_end H' token sus w2 = Some (generateSolution token)"
proof -
  have init: "wasmInstance w \<noteq> None"
  proof
    assume "wasmInstance w = None"
    from solveChallenge_begin_uninitialised[OF this, of H G token] b show False by simp
  qed
  from b solveChallenge_begin_initialised[OF init, of H G token]
  have sus: "sus = Await (length (promises w))"
    and w1: "promises w1 = promises w @ [Resolved (generateSolution token)]"
    by auto
  from w1 have "promises w1 ! length (promises w) = Resolved (generateSolution token)" by simp
  with settled_keptD[OF k, of "length (promises w)"] w1
  have "promises w2 ! length (promises w) = Resolved (generateSolution token)" by simp
  with sus show ?thesis by (simp add: solveChallenge_end_def)
qed

lemma settled_kept_call:
  "settled_kept w (snd (call_function H (SolveCallback k) t [Str x] w))"
  by (simp add: call_function_def Solve_callback_string settled_kept_def list_all_iff
      nth_list_update)

lemma first_candidate_Some: "first_candidate f xs = Some s \<Longrightarrow> \<exists>i \<in> set xs. f i = Some s"
  by (induction xs) (auto split: option.splits)

lemma candidate_at_format: "candidate_at H m i = Some s \<Longrightarrow> solution_format s"
  by (auto simp: candidate_at_def Let_def split: if_splits)

lemma searchSolutionInMemory_format: "searchSolutionInMemory H w = Some s \<Longrightarrow> solution_format s"
  by (auto simp: searchSolutionInMemory_def split: if_splits
      dest!: first_candidate_Some candidate_at_format)

lemma solveChallenge_end_rejected:
  "promises w ! k = Rejected e \<Longrightarrow> solveChallenge_end H token (Await k) w = Some s \<Longrightarrow>
     solution_format s"
  by (auto simp: solveChallenge_end_def generateSolution_format searchSolutionInMemory_format
      split: option.splits if_splits)

text \<open>
  Claim C2. Every string that \<open>solveChallenge\<close> returns has the solution grammar: a whole
  call returns a well-formed string whenever it returns one; so does a call that is
  resumed in any later state of the host (whatever the guest did meanwhile, settled
  promises staying as they are); on a rejected promise the memory scan and the fallback
  give well-formed strings; the memory scan only ever gives well-formed strings; and
  the fallback synthesis is well-formed for every token.
\<close>

theorem solveChallenge_solution_format:
  "(solveChallenge H G token w = (Some (Inr s), w') \<longrightarrow> solution_format s)
   \<and> (solveChallenge_begin H G token w = (Inr sus, w1) \<and> settled_kept w1 w2
        \<and> solveChallenge_end H token sus w2 = Some s \<longrightarrow> solution_format s)
   \<and> (promises w ! k = Rejected e \<and> solveChallenge_end H token (Await k) w = Some s
        \<longrightarrow> solution_format s)
   \<and> (searchSolutionInMemory H w = Some s \<longrightarrow> solution_format s)
   \<and> solution_format (generateSolution token)"
proof (intro conjI impI)
  assume a: "solveChallenge H G token w = (Some (Inr s), w')"
  show "solution_format s"
  proof (cases "wasmInstance w")
    case None
    from solveChallenge_uninitialised[OF None, of H G token] a show ?thesis by simp
  next
    case (Some inst)
    then have "wasmInstance w \<noteq> None" by simp
    from solveChallenge_initialised[OF this, of H G token] a
    show ?thesis by (simp add: generateSolution_format)
  qed
next
  assume "solveChallenge_begin H G token w = (Inr sus, w1) \<and> settled_kept w1 w2
        \<and> solveChallenge_end H token sus w2 = Some s"
  then show "solution_format s"
    using solveChallenge_end_after[of H G token w sus w1 w2 H]
    by (auto simp: generateSolution_format)
next
  assume "promises w ! k = Rejected e \<and> solveChallenge_end H token (Await k) w = Some s"
  then show "solution_format s" using solveChallenge_end_rejected by blast
next
  assume "searchSolutionInMemory H w = Some s"
  then show "solution_format s" by (rule searchSolutionInMemory_format)
next
  show "solution_format (generateSolution token)" by (rule generateSolution_format)
qed

theorem solveChallenge_solution_format_witness:
  "solveChallenge browser_runtime idle_guest (lit ''abc123'') (solver_with_memory [])
     = (Some (Inr (generateSolution (lit ''abc123''))),
        (solver_with_memory [])\<lparr>vercelChallengeToken := Str (lit ''abc123''),
           promises := [Resolved (generateSolution (lit ''abc123''))],
           Solve := SolveCallback 0\<rparr>)
   \<and> solution_format (generateSolution (lit ''abc123''))"
proof -
  have init: "wasmInstance (solver_with_memory []) \<noteq> None"
    by (simp add: solver_with_memory_def)
  have run: "solveChallenge browser_runtime idle_guest (lit ''abc123'') (solver_with_memory [])
     = (Some (Inr (generateSolution (lit ''abc123''))),
        (solver_with_memory [])\<lparr>vercelChallengeToken := Str (lit ''abc123''),
           promises := [Resolved (generateSolution (lit ''abc123''))],
           Solve := SolveCallback 0\<rparr>)"
    using solveChallenge_initialised[OF init, of browser_runtime idle_guest "lit ''abc123''"]
    by (simp add: solver_with_memory_def new_solver_def)
  with solveChallenge_solution_format[of browser_runtime idle_guest "lit ''abc123''"
      "solver_with_memory []" "generateSolution (lit ''abc123'')"]
  show ?thesis by simp
qed

text \<open>
  Claim C6. The fallback synthesis reads nothing but the token: \<open>generateSolution\<close> is
  the text \<open>1.0;\<close> and three hash segments of the token with the salts
  \<open>part1\<close>, \<open>part2\<close> and \<open>part3\<close>. Two calls of \<open>solveChallenge\<close> with the same token,
  in any two initialised states of the solver and the host (two processes), under any
  runtimes and any guest behaviour, return the same string, the synthesized one.
\<close>

theorem fallback_synthesis_deterministic:
  "generateSolution token
     = lit ''1.0;'' @ generateHashSegment (lit ''monad_challenge_seed_'' @ token @ lit ''part1'') 16
       @ lit '';'' @ generateHashSegment (lit ''monad_challenge_seed_'' @ token @ lit ''part2'') 16
       @ lit '';'' @ generateHashSegment (lit ''monad_challenge_seed_'' @ token @ lit ''part3'') 16
   \<and> (wasmInstance w1 \<noteq> None \<and> wasmInstance w2 \<noteq> None \<longrightarrow>
        fst (solveChallenge H1 G1 token w1) = Some (Inr (generateSolution token))
        \<and> fst (solveChallenge H2 G2 token w2) = fst (solveChallenge H1 G1 token w1))"
  by (simp add: generateSolution_def Let_def solveChallenge_initialised)

theorem fallback_synthesis_deterministic_witness:
  "wasmInstance (solver_with_memory []) \<noteq> None
   \<and> wasmInstance ((solver_with_memory [1, 2, 3])\<lparr>nextRefId := 9\<rparr>) \<noteq> None
   \<and> fst (solveChallenge (browser_runtime\<lparr>decode := (\<lambda>bs. [])\<rparr>) trapping_guest (lit ''abc123'')
            ((solver_with_memory [1, 2, 3])\<lparr>nextRefId := 9\<rparr>))
     = fst (solveChallenge browser_runtime idle_guest (lit ''abc123'') (solver_with_memory []))"
  using fallback_synthesis_deterministic[of "lit ''abc123''" "solver_with_memory []"
      "(solver_with_memory [1, 2, 3])\<lparr>nextRefId := 9\<rparr>" browser_runtime idle_guest
      "browser_runtime\<lparr>decode := (\<lambda>bs. [])\<rparr>" trapping_guest]
  by (simp add: solver_with_memory_def)

text \<open>
  Claim C9, on the code. \<open>resetAndRunWasm\<close> itself calls the callback with the
  synthesized solution as soon as it is registered: here the guest calls the callback
  with a well-formed solution of its own right after \<open>solveChallenge\<close> has suspended, and
  \<open>solveChallenge\<close> still returns the synthesized string, which is another one.
\<close>

theorem guest_callback_ignored:
  "fst (solveChallenge_begin browser_runtime idle_guest (lit ''abc123'') (solver_with_memory []))
     = Inr (Await 0)
   \<and> solveChallenge_end browser_runtime (lit ''abc123'') (Await 0)
       (snd (call_function browser_runtime (SolveCallback 0) GlobalThis
               [Str (lit ''1.0;zzzzzzzzzzzzzzzz;zzzzzzzzzzzzzzzz;zzzzzzzzzzzzzzzz'')]
               (snd (solveChallenge_begin browser_runtime idle_guest (lit ''abc123'')
                       (solver_with_memory [])))))
     = Some (generateSolution (lit ''abc123''))
   \<and> generateSolution (lit ''abc123'')
       \<noteq> lit ''1.0;zzzzzzzzzzzzzzzz;zzzzzzzzzzzzzzzz;zzzzzzzzzzzzzzzz''
   \<and> solution_format (lit ''1.0;zzzzzzzzzzzzzzzz;zzzzzzzzzzzzzzzz;zzzzzzzzzzzzzzzz'')"
proof -
  have init: "wasmInstance (solver_with_memory []) \<noteq> None"
    by (simp add: solver_with_memory_def)
  obtain w1 where b: "solveChallenge_begin browser_runtime idle_guest (lit ''abc123'')
      (solver_with_memory []) = (Inr (Await 0), w1)"
    using solveChallenge_begin_initialised[OF init, of browser_runtime idle_guest "lit ''abc123''"]
    by (simp add: solver_with_memory_def new_solver_def)
  have "solveChallenge_end browser_runtime (lit ''abc123'') (Await 0)
      (snd (call_function browser_runtime (SolveCallback 0) GlobalThis
         [Str (lit ''1.0;zzzzzzzzzzzzzzzz;zzzzzzzzzzzzzzzz;zzzzzzzzzzzzzzzz'')] w1))
     = Some (generateSolution (lit ''abc123''))"
    by (rule solveChallenge_end_after[OF b settled_kept_call])
  moreover have "solution_format (lit ''1.0;zzzzzzzzzzzzzzzz;zzzzzzzzzzzzzzzz;zzzzzzzzzzzzzzzz'')"
    by (simp add: solution_format_def lit_def alnum_def)
  ultimately show ?thesis using b generateSolution_not_z[of "lit ''abc123''"] by simp
qed

text \<open>
  Claim C4, as amended. \<open>solveChallenge\<close> has no single-flight guard. On an initialised
  solver a call is accepted whatever promises are pending: it publishes its token,
  registers a callback of its own and waits for its own promise. On a solver that is
  not initialised it is rejected at once, and nothing changes but the count of \<open>Error\<close>
  objects created.
\<close>

theorem solveChallenge_no_single_flight:
  "(wasmInstance w \<noteq> None \<longrightarrow>
      (\<exists>w'. solveChallenge_begin H G token w = (Inr (Await (length (promises w))), w')
         \<and> vercelChallengeToken w' = Str token
         \<and> Solve w' = SolveCallback (length (promises w))
         \<and> length (promises w') = length (promises w) + 1))
   \<and> (wasmInstance w = None \<longrightarrow>
      solveChallenge_begin H G token w
        = (Inl (ErrorObject NotInitialised (allocated w)), w\<lparr>allocated := allocated w + 1\<rparr>))"
  by (simp add: solveChallenge_begin_initialised solveChallenge_begin_uninitialised)

theorem solveChallenge_no_single_flight_witness:
  "wasmInstance ((solver_with_memory [])\<lparr>promises := [Pending], Solve := SolveCallback 0\<rparr>) \<noteq> None
   \<and> fst (solveChallenge_begin browser_runtime idle_guest (lit ''b'')
            ((solver_with_memory [])\<lparr>promises := [Pending], Solve := SolveCallback 0\<rparr>))
       = Inr (Await 1)
   \<and> wasmInstance (new_solver ()) = None
   \<and> solveChallenge_begin browser_runtime idle_guest (lit ''b'') (new_solver ())
       = (Inl (ErrorObject NotInitialised 0), (new_solver ())\<lparr>allocated := 1\<rparr>)"
  using solveChallenge_no_single_flight[of
      "(solver_with_memory [])\<lparr>promises := [Pending], Solve := SolveCallback 0\<rparr>"
      browser_runtime idle_guest "lit ''b''"]
    solveChallenge_no_single_flight[of "new_solver ()" browser_runtime idle_guest "lit ''b''"]
  by (auto simp: solver_with_memory_def new_solver_def)

text \<open>
  Claim C4 as stated fails: a first call has suspended and is not finished, a second call
  is made, and it is not rejected; it replaces the published token and the registered
  callback.
\<close>

theorem single_flight_counterexample:
  "fst (solveChallenge_begin browser_runtime idle_guest (lit ''a'') (solver_with_memory []))
     = Inr (Await 0)
   \<and> vercelChallengeToken (snd (solveChallenge_begin browser_runtime idle_guest (lit ''a'')
        (solver_with_memory []))) = Str (lit ''a'')
   \<and> fst (solveChallenge_begin browser_runtime idle_guest (lit ''b'')
        (snd (solveChallenge_begin browser_runtime idle_guest (lit ''a'') (solver_with_memory []))))
     = Inr (Await 1)
   \<and> vercelChallengeToken (snd (solveChallenge_begin browser_runtime idle_guest (lit ''b'')
        (snd (solveChallenge_begin browser_runtime idle_guest (lit ''a'') (solver_with_memory [])))))
     = Str (lit ''b'')
   \<and> Solve (snd (solveChallenge_begin browser_runtime idle_guest (lit ''b'')
        (snd (solveChallenge_begin browser_runtime idle_guest (lit ''a'') (solver_with_memory [])))))
     = SolveCallback 1"
proof -
  have init: "wasmInstance (solver_with_memory []) \<noteq> None"
    by (simp add: solver_with_memory_def)
  obtain w1 where b1: "solveChallenge_begin browser_runtime idle_guest (lit ''a'')
      (solver_with_memory []) = (Inr (Await 0), w1)"
    and t1: "vercelChallengeToken w1 = Str (lit ''a'')"
    and i1: "wasmInstance w1 \<noteq> None"
    and p1: "length (promises w1) = 1"
    using solveChallenge_begin_initialised[OF init, of browser_runtime idle_guest "lit ''a''"]
    by (simp add: solver_with_memory_def new_solver_def)
  from solveChallenge_begin_initialised[OF i1, of browser_runtime idle_guest "lit ''b''"] p1
  have b2: "fst (solveChallenge_begin browser_runtime idle_guest (lit ''b'') w1) = Inr (Await 1)"
    and t2: "vercelChallengeToken (snd (solveChallenge_begin browser_runtime idle_guest
               (lit ''b'') w1)) = Str (lit ''b'')"
    and s2: "Solve (snd (solveChallenge_begin browser_runtime idle_guest (lit ''b'') w1))
               = SolveCallback 1"
    by simp_all
  from b1 t1 b2 t2 s2 show ?thesis by simp
qed

section \<open>Properties of the dispatcher\<close>

lemma total_ret: "total (ret x)"
  by (simp add: total_def ret_def)

lemma total_bind: "total m \<Longrightarrow> (\<And>x. total (f x)) \<Longrightarrow> total (bind m f)"
  unfolding total_def bind_def
proof
  fix w
  assume m: "\<forall>w. \<exists>x w'. m w = (Inr x, w')" and f: "\<And>x. \<forall>w. \<exists>y w'. f x w = (Inr y, w')"
  from m obtain x w1 where "m w = (Inr x, w1)" by blast
  moreover from f obtain y w2 where "f x w1 = (Inr y, w2)" by blast
  ultimately show "\<exists>y w'. (case m w of (Inl e, w') \<Rightarrow> (Inl e, w') | (Inr x, w') \<Rightarrow> f x w') = (Inr y, w')"
    by simp
qed

lemma total_seq: "total m \<Longrightarrow> total n \<Longrightarrow> total (seq m n)"
  by (simp add: seq_def total_bind)

lemma total_if: "total a \<Longrightarrow> total b \<Longrightarrow> total (if c then a else b)"
  by simp

lemma total_try_catch: "(\<And>e. total (h e)) \<Longrightarrow> total (try_catch m h)"
  unfolding total_def try_catch_def
proof
  fix w
  assume h: "\<And>e. \<forall>w. \<exists>x w'. h e w = (Inr x, w')"
  obtain r w1 where m: "m w = (r, w1)" by (cases "m w")
  show "\<exists>x w'. (case m w of (Inl e, w') \<Rightarrow> h e w' | (Inr x, w') \<Rightarrow> (Inr x, w')) = (Inr x, w')"
  proof (cases r)
    case (Inl e)
    from h obtain x w2 where "h e w1 = (Inr x, w2)" by blast
    with m Inl show ?thesis by simp
  next
    case (Inr x)
    with m show ?thesis by simp
  qed
qed

lemma total_when_instance: "total m \<Longrightarrow> total (when_instance m)"
  by (auto simp: total_def when_instance_def)

lemma total_prims:
  "total memory_length" "total (readInt32 p)" "total (writeInt32 p v)" "total (writeInt64 p v)"
  "total (writeValue p v)" "total (poke p b)" "total (store x)" "total (load i)"
  "total (sp_plus (SpNumber n) k)" "total (writeInt32_at (SpNumber n) v)"
  by (simp_all add: total_def memory_length_def readInt32_def writeInt32_def writeInt64_def
      writeValue_def poke_def store_def load_def sp_plus_def writeInt32_at_def ret_def
      split: prod.splits)

lemma total_poke32: "total (poke_int32 p v)" "total (poke_zero32 p)"
  by (simp_all add: poke_int32_def poke_zero32_def total_seq total_prims)

lemma total_handlers:
  "total (stringVal H (SpNumber n))" "total (valueGet H sp)" "total (valueSet H sp)"
  "total (valueCall H sp)" "total (valueInvoke H sp)" "total (valueNew H (SpNumber n))"
  "total (valueLength H (SpNumber n))" "total (valuePrepareString H (SpNumber n))"
  "total (valueLoadString H sp)" "total (valueIndex H (SpNumber n))" "total finalizeRef"
  unfolding stringVal_def valueGet_def valueSet_def valueCall_def valueInvoke_def valueNew_def
    valueLength_def valuePrepareString_def valueLoadString_def valueIndex_def finalizeRef_def
  by (intro total_when_instance total_try_catch total_bind total_seq total_if total_ret
      total_prims total_poke32)+

lemma totalD: "total m \<Longrightarrow> \<exists>w'. m w = (Inr (), w')"
  by (simp add: total_def)

lemma try_catch_total: "total m \<Longrightarrow> try_catch m h = m"
proof
  fix w
  assume "total m"
  then obtain x w' where "m w = (Inr x, w')" unfolding total_def by blast
  then show "try_catch m h w = m w" by (simp add: try_catch_def)
qed

lemma valueGet_out_of_range:
  "\<not> huge sp \<Longrightarrow> spNum sp < 0 \<or> int (length (mem w)) - 40 \<le> spNum sp \<Longrightarrow>
     valueGet H sp w = (Inr (), w)"
  by (auto simp: valueGet_def valueGet_try_def when_instance_def try_catch_def bind_def
      memory_length_def ret_def)

lemma valueCall_out_of_range:
  "\<not> huge sp \<Longrightarrow> spNum sp < 0 \<or> int (length (mem w)) - 48 \<le> spNum sp \<Longrightarrow>
     valueCall H sp w = (Inr (), w)"
  by (auto simp: valueCall_def valueCall_try_def valueCall_frame_def when_instance_def
      try_catch_def bind_def memory_length_def ret_def)

lemma valueInvoke_out_of_range:
  "\<not> huge sp \<Longrightarrow> spNum sp < 0 \<or> int (length (mem w)) - 40 \<le> spNum sp \<Longrightarrow>
     valueInvoke H sp w = (Inr (), w)"
  by (auto simp: valueInvoke_def valueInvoke_try_def valueInvoke_frame_def when_instance_def
      try_catch_def bind_def memory_length_def ret_def)

lemma mem_storeObject: "mem (snd (storeObject w v)) = mem w"
  by (simp add: storeObject_def mem_def split: option.splits prod.splits)

lemma valueGet_huge:
  assumes "huge sp" "wasmInstance w \<noteq> None" "vercelChallengeToken w = Str t"
  shows "valueGet H sp w
     = bind (store (Str t)) (\<lambda>refId. poke_int32 (int (length (mem w)) - 128) refId) w"
proof -
  let ?body = "bind (\<lambda>w. (Inr (vercelChallengeToken w), w)) (\<lambda>v.
           bind (js_template H v) (\<lambda>logged.
           bind (store v) (\<lambda>refId.
           bind memory_length (\<lambda>len. poke_int32 (len - 128) refId))))"
  have run: "?body w = bind (store (Str t)) (\<lambda>refId. poke_int32 (int (length (mem w)) - 128) refId) w"
    using assms(3) mem_storeObject[of w "Str t"]
    by (cases "storeObject w (Str t)")
       (simp add: bind_def js_template_def ret_def store_def memory_length_def)
  have "total (bind (store (Str t)) (\<lambda>refId. poke_int32 (int (length (mem w)) - 128) refId))"
    by (intro total_bind total_prims total_poke32)
  then obtain w' where "bind (store (Str t)) (\<lambda>refId. poke_int32 (int (length (mem w)) - 128) refId) w = (Inr (), w')"
    using totalD by blast
  with run assms(1,2) show ?thesis
    by (auto simp: valueGet_def valueGet_try_def when_instance_def try_catch_def)
qed

lemma valueCall_huge:
  "huge sp \<Longrightarrow> valueCall H sp = when_instance (try_catch (synthesize_and_Solve H) (\<lambda>e. ret ()))"
  "huge sp \<Longrightarrow> valueInvoke H sp = when_instance (try_catch (synthesize_and_Solve H) (\<lambda>e. ret ()))"
  by (simp_all add: valueCall_def valueInvoke_def valueCall_try_def valueInvoke_try_def)

lemma synthesize_registered:
  assumes "vercelChallengeToken w = Str t" "Solve w = SolveCallback k"
  shows "synthesize_and_Solve H w =
     (Inr (), if k < length (promises w) \<and> promises w ! k = Pending
              then w\<lparr>promises := (promises w)[k := Resolved (generateSolution t)]\<rparr> else w)"
  using assms
  by (simp add: synthesize_and_Solve_def bind_def ret_def js_template_def
      typeof_function_def call_function_def Solve_callback_string)

lemma spNum_small: "0 \<le> b \<Longrightarrow> b < MAX_SAFE_INTEGER \<Longrightarrow> \<not> huge (SpBigInt b) \<and> spNum (SpBigInt b) = b"
  by (simp add: huge_def spNum_def js_rem_def)


lemma set_mem_mem [simp]: "set_mem (mem w) w = w"
  by (cases "wasmInstance w") (simp_all add: set_mem_def mem_def)

lemma mem_set_mem: "length (mem (set_mem m w)) = (if wasmInstance w = None then 0 else length m)"
  by (cases "wasmInstance w") (simp_all add: set_mem_def mem_def)

lemma storeObject_Undefined [simp]: "storeObject w Undefined = (0, w)"
  by (simp add: storeObject_def strict_eq_def)

lemma length_mem_write [simp]: "length (mem_write m i b) = length m"
  by (simp add: mem_write_def)

lemma int32_byte_0 [simp]: "int32_byte k 0 = 0"
  by (simp add: int32_byte_def)

lemma when_instance_Some: "wasmInstance w \<noteq> None \<Longrightarrow> when_instance m w = m w"
  by (cases "wasmInstance w") (simp_all add: when_instance_def)


lemma length_mem_flag_at [simp]: "length (mem (flag_at p w)) = length (mem w)"
  by (cases "wasmInstance w") (simp_all add: flag_at_def set_mem_def mem_def)


















text \<open>
  On a BigInt stack pointer, the handlers declared with \<open>sp: number\<close> throw in their
  \<open>try\<close> block at the first \<open>sp + k\<close>; the \<open>catch\<close> blocks of five of them compute such a
  sum again, and the \<open>TypeError\<close> of that leaves the handler.
\<close>

lemma number_handlers_on_BigInt:
  assumes "wasmInstance w \<noteq> None"
  shows "stringVal H (SpBigInt b) w
           = (Inl (ErrorObject TypeError (allocated w + 1)), w\<lparr>allocated := allocated w + 2\<rparr>)"
    "valueNew H (SpBigInt b) w
           = (Inl (ErrorObject TypeError (allocated w + 1)), w\<lparr>allocated := allocated w + 2\<rparr>)"
    "valueLength H (SpBigInt b) w
           = (Inl (ErrorObject TypeError (allocated w + 1)), w\<lparr>allocated := allocated w + 2\<rparr>)"
    "valuePrepareString H (SpBigInt b) w
           = (Inl (ErrorObject TypeError (allocated w + 1)), w\<lparr>allocated := allocated w + 2\<rparr>)"
    "valueIndex H (SpBigInt b) w
           = (Inl (ErrorObject TypeError (allocated w + 1)), w\<lparr>allocated := allocated w + 2\<rparr>)"
    "valueSet H (SpBigInt b) w = (Inr (), w\<lparr>allocated := allocated w + 1\<rparr>)"
    "valueLoadString H (SpBigInt b) w = (Inr (), w\<lparr>allocated := allocated w + 1\<rparr>)"
  using assms
  by (simp_all add: stringVal_def stringVal_try_def valueNew_def valueNew_try_def
      valueLength_def valueLength_try_def valuePrepareString_def valuePrepareString_try_def
      valueIndex_def valueIndex_try_def valueSet_def valueSet_try_def valueLoadString_def
      valueLoadString_try_def when_instance_Some try_catch_def sp_plus_def bind_def seq_def
      throw_def ret_def new_error_def writeInt32_at_def)




text \<open>
  Claim C8, as amended. A stack pointer that is not a BigInt above \<open>MAX_SAFE_INTEGER\<close> is
  used as it is when it is a number and reduced modulo \<open>MAX_SAFE_INTEGER\<close> (which leaves
  it as it is when it is not negative and below that bound) when it is a BigInt; if the
  result is negative or at least the length of the memory minus 40 (minus 48 for
  \<open>valueCall\<close>), the call changes nothing. A BigInt above \<open>MAX_SAFE_INTEGER\<close> is not
  reduced: \<open>valueGet\<close> stores the published token and writes its id at the length of the
  memory minus 128; \<open>valueCall\<close> and \<open>valueInvoke\<close> synthesize the fallback solution of
  the published token and settle the promise of the registered callback with it. None
  of the three raises.
\<close>

theorem huge_stack_pointer:
  "(\<not> huge sp \<and> (spNum sp < 0 \<or> int (length (mem w)) - 40 \<le> spNum sp) \<longrightarrow>
      valueGet H sp w = (Inr (), w) \<and> valueInvoke H sp w = (Inr (), w))
   \<and> (\<not> huge sp \<and> (spNum sp < 0 \<or> int (length (mem w)) - 48 \<le> spNum sp) \<longrightarrow>
      valueCall H sp w = (Inr (), w))
   \<and> (0 \<le> b \<and> b < MAX_SAFE_INTEGER \<longrightarrow> \<not> huge (SpBigInt b) \<and> spNum (SpBigInt b) = b)
   \<and> (huge sp \<and> wasmInstance w \<noteq> None \<and> vercelChallengeToken w = Str t \<longrightarrow>
      valueGet H sp w
        = bind (store (Str t)) (\<lambda>refId. poke_int32 (int (length (mem w)) - 128) refId) w)
   \<and> (huge sp \<and> wasmInstance w \<noteq> None \<and> vercelChallengeToken w = Str t
        \<and> Solve w = SolveCallback k \<longrightarrow>
      valueCall H sp w
        = (Inr (), if k < length (promises w) \<and> promises w ! k = Pending
                   then w\<lparr>promises := (promises w)[k := Resolved (generateSolution t)]\<rparr> else w)
      \<and> valueInvoke H sp w = valueCall H sp w)
   \<and> (\<exists>w'. valueGet H sp w = (Inr (), w')) \<and> (\<exists>w'. valueCall H sp w = (Inr (), w'))
   \<and> (\<exists>w'. valueInvoke H sp w = (Inr (), w'))"
proof (intro conjI impI)
  assume a: "huge sp \<and> wasmInstance w \<noteq> None \<and> vercelChallengeToken w = Str t
        \<and> Solve w = SolveCallback k"
  then show "valueCall H sp w
        = (Inr (), if k < length (promises w) \<and> promises w ! k = Pending
                   then w\<lparr>promises := (promises w)[k := Resolved (generateSolution t)]\<rparr> else w)"
    by (auto simp: valueCall_huge when_instance_def try_catch_def synthesize_registered)
  from a show "valueInvoke H sp w = valueCall H sp w"
    by (simp add: valueCall_huge)
qed (simp_all add: valueGet_out_of_range valueInvoke_out_of_range valueCall_out_of_range
      spNum_small valueGet_huge totalD total_handlers)

theorem huge_stack_pointer_witness:
  "\<not> huge (SpBigInt 5)
   \<and> int (length (mem (solver_with_memory (replicate 40 0)))) - 40 \<le> spNum (SpBigInt 5)
   \<and> valueGet browser_runtime (SpBigInt 5) (solver_with_memory (replicate 40 0))
       = (Inr (), solver_with_memory (replicate 40 0))
   \<and> valueCall browser_runtime (SpBigInt 5) (solver_with_memory (replicate 40 0))
       = (Inr (), solver_with_memory (replicate 40 0))
   \<and> huge (SpBigInt 9007199254740992)
   \<and> valueCall browser_runtime (SpBigInt 9007199254740992)
       ((solver_with_memory [])\<lparr>vercelChallengeToken := Str (lit ''t''),
          Solve := SolveCallback 0, promises := [Pending]\<rparr>)
       = (Inr (), (solver_with_memory [])\<lparr>vercelChallengeToken := Str (lit ''t''),
          Solve := SolveCallback 0, promises := [Resolved (generateSolution (lit ''t''))]\<rparr>)"
  using huge_stack_pointer[of "SpBigInt 5" "solver_with_memory (replicate 40 0)" browser_runtime 5]
    huge_stack_pointer[of "SpBigInt 9007199254740992"
      "(solver_with_memory [])\<lparr>vercelChallengeToken := Str (lit ''t''),
          Solve := SolveCallback 0, promises := [Pending]\<rparr>" browser_runtime 0 "lit ''t''" 0]
  by (simp add: huge_def spNum_def js_rem_def MAX_SAFE_INTEGER_def mem_def
      solver_with_memory_def new_solver_def)

text \<open>
  Claim C8 as stated fails: the stack pointer is a BigInt above \<open>MAX_SAFE_INTEGER\<close> whose
  remainder, \<open>100\<close>, is out of range for a memory of 128 bytes, and \<open>valueGet\<close> still
  stores the published token and writes its id, \<open>6\<close>, into the memory.
\<close>

theorem huge_stack_pointer_counterexample:
  "huge (SpBigInt 9007199254741091)
   \<and> js_rem 9007199254741091 MAX_SAFE_INTEGER = 100
   \<and> \<not> 100 < int (length (replicate 128 (0 :: byte))) - 40
   \<and> mem (snd (valueGet browser_runtime (SpBigInt 9007199254741091)
        ((solver_with_memory (replicate 128 0))\<lparr>vercelChallengeToken := Str (lit ''t'')\<rparr>)))
      = 6 # replicate 127 0
   \<and> objectRefs (snd (valueGet browser_runtime (SpBigInt 9007199254741091)
        ((solver_with_memory (replicate 128 0))\<lparr>vercelChallengeToken := Str (lit ''t'')\<rparr>)))
      = [(6, Str (lit ''t''))]"
  by code_simp

text \<open>
  Claim C1, on the code. For the receiver id \<open>0\<close> and the name \<open>navigator\<close> the handler
  takes the navigator object as the target and then reads the property \<open>navigator\<close> of
  it, which it does not have: the id written to the frame is \<open>0\<close>, not \<open>2\<close>, and
  nothing is stored. The second half of the claim holds: for the receiver id \<open>2\<close> and
  the name \<open>userAgent\<close> the id written is that of a string, which is the user agent of
  \<open>createBrowserEnvironment\<close>.
\<close>

theorem valueGet_navigator_writes_absent_id:
  "fst (valueGet browser_runtime (SpNumber 0) (solver_with_memory (frame 0 ''navigator'')))
     = Inr ()
   \<and> readInt32FromMemory (mem (snd (valueGet browser_runtime (SpNumber 0)
        (solver_with_memory (frame 0 ''navigator''))))) 32 = 0
   \<and> objectRefs (snd (valueGet browser_runtime (SpNumber 0)
        (solver_with_memory (frame 0 ''navigator'')))) = []
   \<and> readInt32FromMemory (mem (snd (valueGet browser_runtime (SpNumber 0)
        (solver_with_memory (frame 2 ''userAgent''))))) 32 = 6
   \<and> getObject (snd (valueGet browser_runtime (SpNumber 0)
        (solver_with_memory (frame 2 ''userAgent'')))) 6 = Str userAgent"
  by code_simp

end
